theory Spec2Isabelle
  imports Main "HOL-Library.Word"
begin

unbundle bit_operations_syntax

section \<open>JavaScript strings\<close>

text \<open>
  A JavaScript string is the list of its UTF-16 code units, so \<open>length\<close> is the
  source's \<open>.length\<close>. The literals of the source are ASCII unless said otherwise and
  are written \<open>js ''...''\<close>.
\<close>

type_synonym jstring = "nat list"

definition js :: "string \<Rightarrow> jstring" where
  "js s = map of_char s"

text \<open>\<open>s.startsWith(t)\<close> and \<open>s.includes(t)\<close>.\<close>

fun startsWith :: "jstring \<Rightarrow> jstring \<Rightarrow> bool" where
  "startsWith s [] = True"
| "startsWith [] (c # t) = False"
| "startsWith (a # s) (c # t) = (a = c \<and> startsWith s t)"

fun includesStr :: "jstring \<Rightarrow> jstring \<Rightarrow> bool" where
  "includesStr [] t = (t = [])"
| "includesStr (a # s) t = (startsWith (a # s) t \<or> includesStr s t)"

text \<open>
  \<open>s.toLowerCase()\<close>. The source only ever searches the result for ASCII keywords.
  The code units whose lower-case form contains an ASCII letter are \<open>A\<close>-\<open>Z\<close>, the
  Kelvin sign U+212A (to \<open>k\<close>) and U+0130 (to \<open>i\<close> followed by U+0307); the Latin-1
  capitals move by 32 as well. Every other code unit is left as it is: its lower-case
  form has no ASCII letter, so no keyword test of the source sees the difference.
\<close>

definition lowerUnit :: "nat \<Rightarrow> jstring" where
  "lowerUnit c =
     (if 65 \<le> c \<and> c \<le> 90 then [c + 32]
      else if 192 \<le> c \<and> c \<le> 222 \<and> c \<noteq> 215 then [c + 32]
      else if c = 8490 then [107]
      else if c = 304 then [105, 775]
      else [c])"

definition toLowerCase :: "jstring \<Rightarrow> jstring" where
  "toLowerCase s = concat (map lowerUnit s)"

text \<open>
  The code units matched by \<open>\s\<close> in a regular expression, which are also the ones
  \<open>trim()\<close> strips: white space and line terminators.
\<close>

definition isSpace :: "nat \<Rightarrow> bool" where
  "isSpace c \<longleftrightarrow>
     (9 \<le> c \<and> c \<le> 13) \<or> c = 32 \<or> c = 160 \<or> c = 5760 \<or> (8192 \<le> c \<and> c \<le> 8202)
     \<or> c = 8232 \<or> c = 8233 \<or> c = 8239 \<or> c = 8287 \<or> c = 12288 \<or> c = 65279"

definition trim :: "jstring \<Rightarrow> jstring" where
  "trim s = rev (dropWhile isSpace (rev (dropWhile isSpace s)))"

section \<open>The parsed page\<close>

text \<open>
  \<open>cheerio.load(html)\<close> is not the repository's code. A page is given as its raw markup
  together with the tree the parser builds from it: elements with their tag name,
  attributes in order and children, and text nodes. Comments are left out; they take no
  part in any query of the source.
\<close>

datatype node =
    Element (tagName: jstring) (attribs: "(jstring \<times> jstring) list") (childNodes: "node list")
  | TextNode jstring

record document =
  markup :: jstring
  tree :: "node list"

text \<open>
  An element of a selection is a node of the tree together with the chain of its
  ancestors, nearest first.
\<close>

type_synonym element = "node list \<times> node"

fun elementsOf :: "node list \<Rightarrow> node \<Rightarrow> element list" where
  "elementsOf anc (TextNode t) = []"
| "elementsOf anc (Element t a cs) =
     (anc, Element t a cs) # concat (map (elementsOf (Element t a cs # anc)) cs)"

text \<open>\<open>.text()\<close>: the text of the descendants, in document order.\<close>

fun textContent :: "node \<Rightarrow> jstring" where
  "textContent (TextNode t) = t"
| "textContent (Element t a cs) = concat (map textContent cs)"

text \<open>\<open>.attr(name)\<close> of one element; \<open>None\<close> is \<open>undefined\<close>.\<close>

fun attrOf :: "node \<Rightarrow> jstring \<Rightarrow> jstring option" where
  "attrOf (TextNode t) name = None"
| "attrOf (Element t a cs) name = map_of a name"

text \<open>The class names of an element: its \<open>class\<close> attribute split at white space.\<close>

fun splitSpace :: "jstring \<Rightarrow> jstring \<Rightarrow> jstring list" where
  "splitSpace acc [] = (if acc = [] then [] else [acc])"
| "splitSpace acc (c # s) =
     (if isSpace c then (if acc = [] then splitSpace [] s else acc # splitSpace [] s)
      else splitSpace (acc @ [c]) s)"

definition classNames :: "node \<Rightarrow> jstring list" where
  "classNames n = (case attrOf n (js ''class'') of None \<Rightarrow> [] | Some v \<Rightarrow> splitSpace [] v)"

subsection \<open>Selectors\<close>

text \<open>
  The selectors of the repository use tag names, classes, ids, attribute equality,
  compounds of these (\<open>h2.entry-title\<close>), the descendant combinator and comma lists. A
  selector is kept in parsed form: a list of alternatives, each a chain of compounds
  read from the outermost ancestor to the subject.
\<close>

datatype simple = Tag jstring | Class jstring | Id jstring | AttrEq jstring jstring

type_synonym compound = "simple list"
type_synonym selector = "compound list list"

fun matchesSimple :: "node \<Rightarrow> simple \<Rightarrow> bool" where
  "matchesSimple n (Tag t) = (case n of Element t' a cs \<Rightarrow> t' = t | TextNode x \<Rightarrow> False)"
| "matchesSimple n (Class c) = (c \<in> set (classNames n))"
| "matchesSimple n (Id i) = (attrOf n (js ''id'') = Some i)"
| "matchesSimple n (AttrEq k v) = (attrOf n k = Some v)"

definition matchesCompound :: "node \<Rightarrow> compound \<Rightarrow> bool" where
  "matchesCompound n c = list_all (matchesSimple n) c"

text \<open>
  The compounds left of the subject, nearest first, have to be found among the
  ancestors in that order.
\<close>

fun matchesAncestors :: "compound list \<Rightarrow> node list \<Rightarrow> bool" where
  "matchesAncestors [] anc = True"
| "matchesAncestors (c # cs) [] = False"
| "matchesAncestors (c # cs) (a # anc) =
     (if matchesCompound a c then matchesAncestors cs anc else matchesAncestors (c # cs) anc)"

definition matchesChain :: "compound list \<Rightarrow> node list \<Rightarrow> node \<Rightarrow> bool" where
  "matchesChain ch anc n =
     (case rev ch of [] \<Rightarrow> False
      | subject # outer \<Rightarrow> matchesCompound n subject \<and> matchesAncestors outer anc)"

definition matches :: "selector \<Rightarrow> node list \<Rightarrow> node \<Rightarrow> bool" where
  "matches s anc n = list_ex (\<lambda>ch. matchesChain ch anc n) s"

text \<open>\<open>$(selector)\<close>: the elements of the page that match, in document order.\<close>

definition query :: "document \<Rightarrow> selector \<Rightarrow> element list" where
  "query d s = filter (\<lambda>(anc, n). matches s anc n) (concat (map (elementsOf []) (tree d)))"

text \<open>
  \<open>$el.find(selector)\<close>: the descendants of the element that match, the whole chain
  being looked for below the element.
\<close>

definition find1 :: "element \<Rightarrow> selector \<Rightarrow> element list" where
  "find1 el s =
     filter (\<lambda>(anc, n). matches s (take (length anc - Suc (length (fst el))) anc) n)
       (concat (map (elementsOf (snd el # fst el)) (childNodes (snd el))))"

definition findAll :: "element list \<Rightarrow> selector \<Rightarrow> element list" where
  "findAll els s = concat (map (\<lambda>el. find1 el s) els)"

text \<open>\<open>.is(selector)\<close>, \<open>.text()\<close>, \<open>.attr(name)\<close> and \<open>.hasClass(name)\<close> of a selection.\<close>

definition isSel :: "element list \<Rightarrow> selector \<Rightarrow> bool" where
  "isSel els s = list_ex (\<lambda>(anc, n). matches s anc n) els"

definition textOf :: "element list \<Rightarrow> jstring" where
  "textOf els = concat (map (\<lambda>(anc, n). textContent n) els)"

definition attr :: "element list \<Rightarrow> jstring \<Rightarrow> jstring option" where
  "attr els name = (case els of [] \<Rightarrow> None | (anc, n) # rest \<Rightarrow> attrOf n name)"

definition hasClass :: "element list \<Rightarrow> jstring \<Rightarrow> bool" where
  "hasClass els c = list_ex (\<lambda>(anc, n). c \<in> set (classNames n)) els"

subsection \<open>Selector literals\<close>

text \<open>
  The selector strings of the source are read by \<open>sel\<close>, so that the model shows them
  as the source writes them.
\<close>

definition selStop :: "char \<Rightarrow> bool" where
  "selStop c \<longleftrightarrow> c = CHR ''.'' \<or> c = CHR ''#'' \<or> c = CHR ''[''"

function parseCompound :: "string \<Rightarrow> compound" where
  "parseCompound [] = []"
| "parseCompound (c # cs) =
     (if c = CHR ''.'' then
        Class (js (takeWhile (\<lambda>x. \<not> selStop x) cs)) # parseCompound (dropWhile (\<lambda>x. \<not> selStop x) cs)
      else if c = CHR ''#'' then
        Id (js (takeWhile (\<lambda>x. \<not> selStop x) cs)) # parseCompound (dropWhile (\<lambda>x. \<not> selStop x) cs)
      else if c = CHR ''['' then
        (let name = takeWhile (\<lambda>x. x \<noteq> CHR ''='') cs;
             rest = drop (length name + 2) cs;
             val = takeWhile (\<lambda>x. x \<noteq> CHR 0x22) rest
         in AttrEq (js name) (js val) # parseCompound (drop (length val + 2) rest))
      else
        Tag (js (c # takeWhile (\<lambda>x. \<not> selStop x) cs)) # parseCompound (dropWhile (\<lambda>x. \<not> selStop x) cs))"
  by pat_completeness auto
termination
  by (relation "measure length") (auto simp: length_dropWhile_le less_Suc_eq_le intro: le_trans)

fun splitOn :: "char \<Rightarrow> string \<Rightarrow> string \<Rightarrow> string list" where
  "splitOn d acc [] = [acc]"
| "splitOn d acc (c # s) = (if c = d then acc # splitOn d [] s else splitOn d (acc @ [c]) s)"

definition sel :: "string \<Rightarrow> selector" where
  "sel s = map (\<lambda>alt. map parseCompound (filter (\<lambda>w. w \<noteq> []) (splitOn CHR '' '' [] alt)))
             (splitOn CHR '','' [] s)"

section \<open>Site detection\<close>

datatype role = Articles | Title | Content | Link | Date | Author | Image | Price | Summary

record detection =
  type :: jstring
  platform :: jstring
  confidence :: nat
  selectors :: "role \<Rightarrow> selector option"
  features :: "jstring list"

record siteInfo = detection +
  url :: jstring

datatype error = TypeError | InvalidURL

type_synonym detector = "document \<Rightarrow> jstring \<Rightarrow> detection"

text \<open>\<open>x?.includes(t)\<close> on an attribute value that may be \<open>undefined\<close>.\<close>

definition optIncludes :: "jstring option \<Rightarrow> jstring \<Rightarrow> bool" where
  "optIncludes v t = (case v of None \<Rightarrow> False | Some s \<Rightarrow> includesStr s t)"

definition detectWordPress :: detector where
  \<open>detectWordPress d u =
     (let html = markup d;
          c1 = (if includesStr html (js ''wp-content'') \<or> includesStr html (js ''wp-includes'')
                then 30 else 0);
          f1 = (if includesStr html (js ''wp-content'') \<or> includesStr html (js ''wp-includes'')
                then [js ''wp-content-detected''] else []);
          gen = optIncludes (attr (query d (sel ''meta[name="generator"]'')) (js ''content''))
                  (js ''WordPress'');
          c2 = c1 + (if gen then 40 else 0);
          f2 = f1 @ (if gen then [js ''wp-generator-meta''] else []);
          c3 = c2 + (if hasClass (query d (sel ''body'')) (js ''wp-admin-bar-front'') then 20 else 0)
      in \<lparr> type = js ''blog'', platform = js ''wordpress'', confidence = c3,
           selectors = (if c3 > 50 then
              [Articles \<mapsto> sel ''.post, article, .entry'',
               Title \<mapsto> sel ''.entry-title, .post-title, h1, h2.entry-title'',
               Content \<mapsto> sel ''.entry-content, .post-content, .content'',
               Date \<mapsto> sel ''.entry-date, .post-date, time'',
               Link \<mapsto> sel ''.entry-title a, .post-title a'']
            else Map.empty),
           features = f2 \<rparr>)\<close>

definition detectMedium :: detector where
  \<open>detectMedium d u =
     (let html = markup d;
          dom = includesStr u (js ''medium.com'');
          c1 = (if dom then 60 else 0);
          c2 = c1 + (if includesStr html (js ''Medium'')
                        \<or> optIncludes (attr (query d (sel ''meta[property="al:web:url"]'')) (js ''content''))
                             (js ''medium.com'')
                     then 30 else 0)
      in \<lparr> type = js ''blog'', platform = js ''medium'', confidence = c2,
           selectors = (if c2 > 50 then
              [Articles \<mapsto> sel ''article, .postArticle'',
               Title \<mapsto> sel ''h1, .graf--title'',
               Content \<mapsto> sel ''.section-content, .postArticle-content'',
               Date \<mapsto> sel ''time, .postMetaInline time'',
               Author \<mapsto> sel ''.postMetaInline a'']
            else Map.empty),
           features = (if dom then [js ''medium-domain''] else []) \<rparr>)\<close>

definition detectGitHub :: detector where
  \<open>detectGitHub d u =
     (let dom = (includesStr u (js ''github.io'') \<or> includesStr u (js ''github.com''));
          c1 = (if dom then 50 else 0);
          c2 = c1 + (if attr (query d (sel ''meta[property="og:site_name"]'')) (js ''content'')
                          = Some (js ''GitHub'')
                     then 30 else 0)
      in \<lparr> type = js ''repository'', platform = js ''github'', confidence = c2,
           selectors = (if c2 > 50 then
              [Articles \<mapsto> sel ''.commit, .issue-item, .release'',
               Title \<mapsto> sel ''.commit-title, .issue-title, .release-title'',
               Content \<mapsto> sel ''.commit-desc, .issue-body, .release-body'',
               Date \<mapsto> sel ''time, .date'']
            else Map.empty),
           features = (if dom then [js ''github-domain''] else []) \<rparr>)\<close>

definition detectNews :: detector where
  \<open>detectNews d u =
     (let html = markup d;
          many = (length (query d (sel ''.article, .news-item, .story'')) > 5);
          meta = (attr (query d (sel ''meta[property="og:type"]'')) (js ''content'')
                    = Some (js ''article''));
          ld = (includesStr html (js ''"@type":"NewsArticle"'') \<or> includesStr html (js ''"@type":"Article"''));
          c = (if many then 20 else 0) + (if meta then 30 else 0) + (if ld then 40 else 0)
      in \<lparr> type = js ''news'', platform = js ''news'', confidence = c,
           selectors = (if c > 30 then
              [Articles \<mapsto> sel ''article, .article, .news-item, .story, .post'',
               Title \<mapsto> sel ''h1, h2, .headline, .title, .article-title'',
               Content \<mapsto> sel ''.article-content, .story-content, .content, .text'',
               Date \<mapsto> sel ''time, .date, .published, .timestamp'',
               Summary \<mapsto> sel ''.summary, .excerpt, .intro'']
            else Map.empty),
           features = (if many then [js ''multiple-articles''] else [])
                    @ (if meta then [js ''article-meta''] else [])
                    @ (if ld then [js ''structured-data''] else []) \<rparr>)\<close>

definition detectECommerce :: detector where
  \<open>detectECommerce d u =
     (let html = markup d;
          many = (length (query d (sel ''.product, .item, .goods'')) > 5);
          ld = includesStr html (js ''"@type":"Product"'');
          keywordMatches = length (filter (\<lambda>keyword. includesStr (toLowerCase html) keyword)
                             [js ''price'', js ''cart'', js ''buy'', js ''shop'', js ''product'']);
          c = (if many then 30 else 0) + (if ld then 40 else 0) + keywordMatches * 5
      in \<lparr> type = js ''ecommerce'', platform = js ''shop'', confidence = c,
           selectors = (if c > 25 then
              [Articles \<mapsto> sel ''.product, .item, .goods, .listing'',
               Title \<mapsto> sel ''.product-title, .item-title, h1, h2'',
               Content \<mapsto> sel ''.description, .product-desc, .details'',
               Price \<mapsto> sel ''.price, .cost, .amount'']
            else Map.empty),
           features = (if many then [js ''product-listings''] else [])
                    @ (if ld then [js ''product-structured-data''] else []) \<rparr>)\<close>

definition detectPortfolio :: detector where
  \<open>detectPortfolio d u =
     (let html = markup d;
          keywordMatches = length (filter (\<lambda>keyword. includesStr (toLowerCase html) keyword
                                                      \<or> includesStr (toLowerCase u) keyword)
                             [js ''portfolio'', js ''work'', js ''project'', js ''case-study'', js ''design'']);
          many = (length (query d (sel ''.project, .work, .case-study, .portfolio-item'')) > 2);
          description = (case attr (query d (sel ''meta[name="description"]'')) (js ''content'') of
                           None \<Rightarrow> [] | Some v \<Rightarrow> toLowerCase v);
          design = list_ex (\<lambda>word. includesStr description word)
                     [js ''designer'', js ''portfolio'', js ''creative'', js ''artist'', js ''developer''];
          c = keywordMatches * 10 + (if many then 30 else 0) + (if design then 20 else 0)
      in \<lparr> type = js ''portfolio'', platform = js ''portfolio'', confidence = c,
           selectors = (if c > 25 then
              [Articles \<mapsto> sel ''.project, .work, .case-study, .portfolio-item'',
               Title \<mapsto> sel ''.project-title, .work-title, h1, h2, h3'',
               Content \<mapsto> sel ''.project-desc, .work-description, .description'',
               Image \<mapsto> sel ''.project-image, .work-image, img'',
               Link \<mapsto> sel ''.project-link, .work-link, a'']
            else Map.empty),
           features = (if many then [js ''project-listings''] else [])
                    @ (if design then [js ''design-description''] else []) \<rparr>)\<close>

definition detectGeneric :: detector where
  "detectGeneric d u =
     \<lparr> type = js ''generic'', platform = js ''unknown'', confidence = 10,
       selectors =
          [Articles \<mapsto> sel ''article, .post, .entry, .item, .content-item'',
           Title \<mapsto> sel ''h1, h2, .title, .headline, .entry-title'',
           Content \<mapsto> sel ''.content, .text, .description, .summary'',
           Date \<mapsto> sel ''time, .date, .published'',
           Link \<mapsto> sel ''a''],
       features = [js ''generic-fallback''] \<rparr>"

subsection \<open>The coordinator\<close>

text \<open>
  The constructor lists eight methods. The class defines seven of them: it has no
  \<open>detectBlogger\<close>, so the second entry of \<open>this.detectors\<close> is \<open>undefined\<close>
  (\<open>None\<close>), and \<open>detector.call\<close> on it raises a TypeError.
\<close>

definition detectors :: "detector option list" where
  "detectors =
     [Some detectWordPress, None, Some detectMedium, Some detectGitHub, Some detectNews,
      Some detectECommerce, Some detectPortfolio, Some detectGeneric]"

text \<open>\<open>Object.assign(siteInfo, result)\<close>: the five keys of a result overwrite the record.\<close>

definition assign :: "siteInfo \<Rightarrow> detection \<Rightarrow> siteInfo" where
  "assign s r = s\<lparr> type := type r, platform := platform r, confidence := confidence r,
                   selectors := selectors r, features := features r \<rparr>"

fun runDetectors :: "detector option list \<Rightarrow> document \<Rightarrow> jstring \<Rightarrow> siteInfo \<Rightarrow> error + siteInfo" where
  "runDetectors [] d u s = Inr s"
| "runDetectors (None # ds) d u s = Inl TypeError"
| "runDetectors (Some detector # ds) d u s =
     (let result = detector d u
      in runDetectors ds d u (if confidence result > confidence s then assign s result else s))"

definition initialInfo :: "jstring \<Rightarrow> siteInfo" where
  "initialInfo u = \<lparr> type = js ''unknown'', platform = js ''unknown'', confidence = 0,
                     selectors = Map.empty, features = [], url = u \<rparr>"

definition detectSiteType :: "document \<Rightarrow> jstring \<Rightarrow> error + siteInfo" where
  "detectSiteType d u = runDetectors detectors d u (initialInfo u)"


section \<open>The runtime\<close>

subsection \<open>Numbers as text\<close>

fun showNat :: "nat \<Rightarrow> jstring" where
  "showNat n = (if n < 10 then [48 + n] else showNat (n div 10) @ [48 + n mod 10])"

declare showNat.simps [simp del]

definition showInt :: "int \<Rightarrow> jstring" where
  "showInt i = (if i < 0 then 45 # showNat (nat (- i)) else showNat (nat i))"

definition padLeft :: "nat \<Rightarrow> jstring \<Rightarrow> jstring" where
  "padLeft n s = replicate (n - length s) 48 @ s"

subsection \<open>Dates\<close>

text \<open>
  A date is its time value: milliseconds since 1970-01-01T00:00:00Z, or \<open>None\<close> for
  the invalid date. \<open>civilFromDays\<close> gives year, month and day of a day number.
\<close>

definition civilFromDays :: "int \<Rightarrow> int \<times> nat \<times> nat" where
  "civilFromDays z0 =
     (let z = z0 + 719468;
          era = z div 146097;
          doe = z - era * 146097;
          yoe = (doe - doe div 1460 + doe div 36524 - doe div 146096) div 365;
          doy = doe - (365 * yoe + yoe div 4 - yoe div 100);
          mp = (5 * doy + 2) div 153;
          d = doy - (153 * mp + 2) div 5 + 1;
          m = (if mp < 10 then mp + 3 else mp - 9);
          y = yoe + era * 400 + (if m \<le> 2 then 1 else 0)
      in (y, nat m, nat d))"

definition dayNames :: "jstring list" where
  "dayNames = [js ''Sun'', js ''Mon'', js ''Tue'', js ''Wed'', js ''Thu'', js ''Fri'', js ''Sat'']"

definition monthNames :: "jstring list" where
  "monthNames = [js ''Jan'', js ''Feb'', js ''Mar'', js ''Apr'', js ''May'', js ''Jun'',
                 js ''Jul'', js ''Aug'', js ''Sep'', js ''Oct'', js ''Nov'', js ''Dec'']"

text \<open>\<open>toUTCString()\<close>, as in \<open>Thu, 01 Jan 1970 00:00:00 GMT\<close>.\<close>

definition toUTCString :: "int option \<Rightarrow> jstring" where
  "toUTCString tv =
     (case tv of None \<Rightarrow> js ''Invalid Date''
      | Some t \<Rightarrow>
          (let days = t div 86400000;
               secs = nat ((t mod 86400000) div 1000);
               (y, m, d) = civilFromDays days
           in dayNames ! nat ((days + 4) mod 7) @ js '', '' @ padLeft 2 (showNat d) @ js '' ''
              @ monthNames ! (m - 1) @ js '' ''
              @ (if y < 0 then js ''-'' else []) @ padLeft 4 (showNat (nat \<bar>y\<bar>)) @ js '' ''
              @ padLeft 2 (showNat (secs div 3600)) @ js '':''
              @ padLeft 2 (showNat (secs div 60 mod 60)) @ js '':''
              @ padLeft 2 (showNat (secs mod 60)) @ js '' GMT''))"

subsection \<open>MD5\<close>

text \<open>
  \<open>createHash('md5').update(s).digest('hex')\<close>: the MD5 digest of the UTF-8 bytes of
  the string, in lower-case hexadecimal. A surrogate without its partner is encoded as
  U+FFFD.
\<close>

definition utf8Point :: "nat \<Rightarrow> nat list" where
  "utf8Point p =
     (if p < 128 then [p]
      else if p < 2048 then [192 + p div 64, 128 + p mod 64]
      else if p < 65536 then [224 + p div 4096, 128 + (p div 64) mod 64, 128 + p mod 64]
      else [240 + p div 262144, 128 + (p div 4096) mod 64, 128 + (p div 64) mod 64, 128 + p mod 64])"

fun utf8 :: "jstring \<Rightarrow> nat list" where
  "utf8 [] = []"
| "utf8 [c] = (if 55296 \<le> c \<and> c < 57344 then utf8Point 65533 else utf8Point c)"
| "utf8 (c # c' # s) =
     (if 55296 \<le> c \<and> c < 56320 \<and> 56320 \<le> c' \<and> c' < 57344
      then utf8Point (65536 + (c - 55296) * 1024 + (c' - 56320)) @ utf8 s
      else if 55296 \<le> c \<and> c < 57344 then utf8Point 65533 @ utf8 (c' # s)
      else utf8Point c @ utf8 (c' # s))"

definition md5Shifts :: "nat list" where
  "md5Shifts = [7, 12, 17, 22, 7, 12, 17, 22, 7, 12, 17, 22, 7, 12, 17, 22,
                5, 9, 14, 20, 5, 9, 14, 20, 5, 9, 14, 20, 5, 9, 14, 20,
                4, 11, 16, 23, 4, 11, 16, 23, 4, 11, 16, 23, 4, 11, 16, 23,
                6, 10, 15, 21, 6, 10, 15, 21, 6, 10, 15, 21, 6, 10, 15, 21]"

definition md5Consts :: "32 word list" where
  "md5Consts =
    [0xd76aa478, 0xe8c7b756, 0x242070db, 0xc1bdceee, 0xf57c0faf, 0x4787c62a, 0xa8304613, 0xfd469501,
     0x698098d8, 0x8b44f7af, 0xffff5bb1, 0x895cd7be, 0x6b901122, 0xfd987193, 0xa679438e, 0x49b40821,
     0xf61e2562, 0xc040b340, 0x265e5a51, 0xe9b6c7aa, 0xd62f105d, 0x02441453, 0xd8a1e681, 0xe7d3fbc8,
     0x21e1cde6, 0xc33707d6, 0xf4d50d87, 0x455a14ed, 0xa9e3e905, 0xfcefa3f8, 0x676f02d9, 0x8d2a4c8a,
     0xfffa3942, 0x8771f681, 0x6d9d6122, 0xfde5380c, 0xa4beea44, 0x4bdecfa9, 0xf6bb4b60, 0xbebfbc70,
     0x289b7ec6, 0xeaa127fa, 0xd4ef3085, 0x04881d05, 0xd9d4d039, 0xe6db99e5, 0x1fa27cf8, 0xc4ac5665,
     0xf4292244, 0x432aff97, 0xab9423a7, 0xfc93a039, 0x655b59c3, 0x8f0ccc92, 0xffeff47d, 0x85845dd1,
     0x6fa87e4f, 0xfe2ce6e0, 0xa3014314, 0x4e0811a1, 0xf7537e82, 0xbd3af235, 0x2ad7d2bb, 0xeb86d391]"

definition rotl :: "nat \<Rightarrow> 32 word \<Rightarrow> 32 word" where
  "rotl n x = push_bit n x OR drop_bit (32 - n) x"

text \<open>The message, the padding bit, zeros up to 56 modulo 64, and the bit length.\<close>

definition md5Pad :: "nat list \<Rightarrow> nat list" where
  "md5Pad m =
     m @ [128] @ replicate ((119 - length m mod 64) mod 64) 0
       @ map (\<lambda>i. (length m * 8 div 256 ^ i) mod 256) [0 ..< 8]"

fun leWords :: "nat list \<Rightarrow> 32 word list" where
  "leWords (a # b # c # d # r) = of_nat (a + 256 * b + 65536 * c + 16777216 * d) # leWords r"
| "leWords r = []"

type_synonym md5State = "32 word \<times> 32 word \<times> 32 word \<times> 32 word"

definition md5Round :: "32 word list \<Rightarrow> md5State \<Rightarrow> nat \<Rightarrow> md5State" where
  "md5Round m st i =
     (case st of (a, b, c, d) \<Rightarrow>
        let f = (if i < 16 then (b AND c) OR (NOT b AND d)
                 else if i < 32 then (d AND b) OR (NOT d AND c)
                 else if i < 48 then b XOR c XOR d
                 else c XOR (b OR NOT d));
            g = (if i < 16 then i
                 else if i < 32 then (5 * i + 1) mod 16
                 else if i < 48 then (3 * i + 5) mod 16
                 else (7 * i) mod 16)
        in (d, b + rotl (md5Shifts ! i) (a + f + md5Consts ! i + m ! g), b, c))"

definition md5Block :: "md5State \<Rightarrow> nat list \<Rightarrow> md5State" where
  "md5Block st blk =
     (case st of (a0, b0, c0, d0) \<Rightarrow>
        case foldl (md5Round (leWords blk)) st [0 ..< 64] of (a, b, c, d) \<Rightarrow>
          (a0 + a, b0 + b, c0 + c, d0 + d))"

fun blocks :: "nat list \<Rightarrow> nat list list" where
  "blocks xs = (if length xs < 64 then [] else take 64 xs # blocks (drop 64 xs))"

declare blocks.simps [simp del]

definition hexDigit :: "nat \<Rightarrow> nat" where
  "hexDigit n = (if n < 10 then 48 + n else 87 + n)"

definition hexByte :: "nat \<Rightarrow> jstring" where
  "hexByte b = [hexDigit (b div 16 mod 16), hexDigit (b mod 16)]"

definition hexWord :: "32 word \<Rightarrow> jstring" where
  "hexWord w = concat (map (\<lambda>i. hexByte (unat (drop_bit (8 * i) w) mod 256)) [0 ..< 4])"

definition md5 :: "jstring \<Rightarrow> jstring" where
  "md5 s =
     (case foldl md5Block (0x67452301, 0xefcdab89, 0x98badcfe, 0x10325476) (blocks (md5Pad (utf8 s)))
      of (a, b, c, d) \<Rightarrow> hexWord a @ hexWord b @ hexWord c @ hexWord d)"

subsection \<open>What the runtime and the libraries supply\<close>

text \<open>A value that \<open>JSON.parse\<close> returns; an object lists its keys in enumeration order.\<close>

datatype json =
    JNull | JBool bool | JNumber int | JString jstring | JArray "json list"
  | JObject "(jstring \<times> json) list"

text \<open>
  The outcome of \<open>fetch(url, ...)\<close>: the promise rejects (no connection, timeout), or
  it gives a response with its \<open>ok\<close> flag, status and body; the body is \<open>None\<close> when
  reading it fails.
\<close>

datatype response = NetworkError | Response (ok: bool) (status: nat) (body: "jstring option")

text \<open>
  The parts of an extraction that are not the repository's code are taken as given:
  \<^item> \<open>urlOrigin u\<close> is \<open>new URL(u).origin\<close>, \<open>None\<close> when \<open>new URL(u)\<close> raises;
  \<^item> \<open>fetch\<close> is the network;
  \<^item> \<open>parseDocument\<close> is \<open>cheerio.load\<close>, \<open>parseFragment\<close> parses the markup given
    to \<open>.html(markup)\<close>, and \<open>serialize\<close> is the markup that \<open>.html()\<close> returns for a
    list of nodes;
  \<^item> \<open>parseJson\<close> is \<open>JSON.parse\<close>, \<open>None\<close> when it raises;
  \<^item> \<open>dateParse s\<close> is the time value of \<open>new Date(s)\<close>;
  \<^item> \<open>clock k\<close> is the time at the \<open>k\<close>-th reading of the clock in the run
    (\<open>new Date()\<close> or \<open>Date.now()\<close>), counted from 0;
  \<^item> \<open>toUpperCase\<close> is the method of that name of strings;
  \<^item> \<open>greaterThanZero v\<close> is \<open>v > 0\<close> for a parsed JSON value that is a string, an
    array or an object.
\<close>

record runtime =
  urlOrigin :: "jstring \<Rightarrow> jstring option"
  fetch :: "jstring \<Rightarrow> response"
  parseDocument :: "jstring \<Rightarrow> node list"
  parseFragment :: "jstring \<Rightarrow> node list"
  serialize :: "node list \<Rightarrow> jstring"
  parseJson :: "jstring \<Rightarrow> json option"
  dateParse :: "jstring \<Rightarrow> int option"
  clock :: "nat \<Rightarrow> int"
  toUpperCase :: "jstring \<Rightarrow> jstring"
  greaterThanZero :: "json \<Rightarrow> bool"

section \<open>The content parser\<close>

text \<open>
  An article as the strategies build it. A key that a strategy does not set, or sets to
  \<open>null\<close>, is \<open>None\<close>.
\<close>

record article =
  title :: jstring
  link :: jstring
  description :: jstring
  content :: jstring
  pubDate :: jstring
  guid :: jstring
  image :: "jstring option"
  author :: "jstring option"
  category :: "jstring option"
  needsFullContent :: "bool option"

record parser =
  siteInfo :: siteInfo
  baseUrl :: jstring

definition newContentParser :: "runtime \<Rightarrow> siteInfo \<Rightarrow> error + parser" where
  "newContentParser rt si =
     (case urlOrigin rt (url si) of
        None \<Rightarrow> Inl InvalidURL
      | Some origin \<Rightarrow> Inr \<lparr> siteInfo = si, baseUrl = origin \<rparr>)"

subsection \<open>Utilities\<close>

definition resolveUrl :: "parser \<Rightarrow> jstring \<Rightarrow> jstring" where
  "resolveUrl p u =
     (if u = [] then url (siteInfo p)
      else if startsWith u (js ''http'') then u
      else if startsWith u (js ''//'') then js ''https:'' @ u
      else if startsWith u (js ''/'') then baseUrl p @ u
      else baseUrl p @ js ''/'' @ u)"

text \<open>A selector role that is missing or empty is \<open>None\<close>.\<close>

definition extractText :: "element \<Rightarrow> selector option \<Rightarrow> jstring" where
  "extractText el selector =
     (case selector of None \<Rightarrow> []
      | Some s \<Rightarrow>
          (case find1 el s of
             [] \<Rightarrow> (if isSel [el] s then textOf [el] else [])
           | e # rest \<Rightarrow> textOf [e]))"

text \<open>
  In \<open>extractLink\<close> the empty string stands for both \<open>''\<close> and \<open>undefined\<close>; the source
  tests the link for truth only.
\<close>

definition hrefOf :: "element list \<Rightarrow> jstring" where
  "hrefOf els = (case attr (take 1 els) (js ''href'') of None \<Rightarrow> [] | Some h \<Rightarrow> h)"

definition extractLink :: "parser \<Rightarrow> element \<Rightarrow> selector option \<Rightarrow> jstring" where
  "extractLink p el selector =
     (case selector of None \<Rightarrow> url (siteInfo p)
      | Some s \<Rightarrow>
          (let link0 = hrefOf (find1 el s);
               anyLink = hrefOf (find1 el (sel ''a''));
               link1 = (if link0 = [] \<and> anyLink \<noteq> [] then anyLink else link0)
           in if link1 \<noteq> [] then resolveUrl p link1 else url (siteInfo p)))"

definition extractImage :: "parser \<Rightarrow> element \<Rightarrow> selector option \<Rightarrow> jstring option" where
  \<open>extractImage p el selector =
     (case selector of None \<Rightarrow> None
      | Some s \<Rightarrow>
          (case find1 el s of [] \<Rightarrow> None
           | e # rest \<Rightarrow>
               (let src = (case attr [e] (js ''src'') of
                             Some v \<Rightarrow> if v \<noteq> [] then Some v else attr [e] (js ''data-src'')
                           | None \<Rightarrow> attr [e] (js ''data-src''))
                in case src of None \<Rightarrow> None
                   | Some v \<Rightarrow> if v \<noteq> [] then Some (resolveUrl p v) else None)))\<close>

text \<open>\<open>extractDate\<close>: the empty string stands for \<open>null\<close> and for \<open>''\<close>.\<close>

definition extractDate :: "element \<Rightarrow> selector option \<Rightarrow> jstring" where
  "extractDate el selector =
     (case selector of None \<Rightarrow> []
      | Some s \<Rightarrow>
          (case find1 el s of [] \<Rightarrow> []
           | e # rest \<Rightarrow>
               (case attr [e] (js ''datetime'') of
                  Some v \<Rightarrow> if v \<noteq> [] then v else textOf [e]
                | None \<Rightarrow> textOf [e])))"

text \<open>\<open>text.replace(/\s+/g, ' ')\<close>: every run of white space becomes one space.\<close>

function collapseSpaces :: "jstring \<Rightarrow> jstring" where
  "collapseSpaces [] = []"
| "collapseSpaces (c # s) =
     (if isSpace c then 32 # collapseSpaces (dropWhile isSpace s) else c # collapseSpaces s)"
  by pat_completeness auto
termination
  by (relation "measure length") (auto simp: length_dropWhile_le less_Suc_eq_le)

definition generateSummary :: "jstring \<Rightarrow> nat \<Rightarrow> jstring" where
  "generateSummary text maxLength =
     (if text = [] then []
      else let clean = trim (collapseSpaces text)
           in if length clean > maxLength then take maxLength clean @ js ''...'' else clean)"

definition generateGuid :: "parser \<Rightarrow> jstring \<Rightarrow> jstring" where
  "generateGuid p identifier = js ''rssos-'' @ take 16 (md5 (identifier @ url (siteInfo p)))"

definition capitalize :: "runtime \<Rightarrow> jstring \<Rightarrow> jstring" where
  "capitalize rt str = (case str of [] \<Rightarrow> [] | c # s \<Rightarrow> toUpperCase rt [c] @ s)"

definition generatePortfolioContent :: "jstring \<Rightarrow> jstring \<Rightarrow> jstring option \<Rightarrow> jstring" where
  \<open>generatePortfolioContent t c img =
     js ''<h2>'' @ t @ js ''</h2>''
     @ (case img of None \<Rightarrow> []
        | Some i \<Rightarrow> js ''<img src="'' @ i @ js ''" alt="'' @ t
                    @ js ''" style="max-width: 100%; height: auto; margin: 10px 0;"/>'')
     @ (if c \<noteq> [] then js ''<p>'' @ c @ js ''</p>'' else [])\<close>

definition generateProductContent :: "jstring \<Rightarrow> jstring \<Rightarrow> jstring \<Rightarrow> jstring" where
  "generateProductContent t c pr =
     js ''<h2>'' @ t @ js ''</h2>''
     @ (if pr \<noteq> [] then js ''<p><strong>Price: '' @ pr @ js ''</strong></p>'' else [])
     @ (if c \<noteq> [] then js ''<p>'' @ c @ js ''</p>'' else [])"

text \<open>
  \<open>date ? new Date(date).toUTCString() : new Date().toUTCString()\<close>, with the number
  of clock readings so far; the second component is that number afterwards.
\<close>

definition pubDateOf :: "runtime \<Rightarrow> jstring \<Rightarrow> nat \<Rightarrow> jstring \<times> nat" where
  "pubDateOf rt d k =
     (if d \<noteq> [] then (toUTCString (dateParse rt d), k)
      else (toUTCString (Some (clock rt k)), Suc k))"

text \<open>\<open>link || title\<close>.\<close>

definition orElse :: "jstring \<Rightarrow> jstring \<Rightarrow> jstring" where
  "orElse a b = (if a \<noteq> [] then a else b)"

subsection \<open>The strategies over the selected elements\<close>

text \<open>
  \<open>$(selectors.articles)\<close>; a missing selector selects nothing. Each strategy runs its
  callback over these elements in order; the model's loops carry the number of clock
  readings made so far.
\<close>

definition articleElements :: "parser \<Rightarrow> document \<Rightarrow> element list" where
  "articleElements p d =
     (case selectors (siteInfo p) Articles of None \<Rightarrow> [] | Some s \<Rightarrow> query d s)"

fun newsEach :: "runtime \<Rightarrow> parser \<Rightarrow> element list \<Rightarrow> nat \<Rightarrow> article list" where
  "newsEach rt p [] k = []"
| "newsEach rt p (el # els) k =
     (let sels = selectors (siteInfo p);
          title0 = extractText el (sels Title);
          content0 = extractText el (sels Content);
          summary0 = orElse (extractText el (sels Summary)) (generateSummary content0 150);
          link0 = extractLink p el (sels Link);
          date0 = extractDate el (sels Date)
      in if title0 \<noteq> [] then
           \<lparr> title = trim title0, link = link0, description = summary0, content = content0,
             pubDate = fst (pubDateOf rt date0 k), guid = generateGuid p (orElse link0 title0),
             image = None, author = None, category = Some (js ''News''),
             needsFullContent = None \<rparr>
           # newsEach rt p els (snd (pubDateOf rt date0 k))
         else newsEach rt p els k)"

definition parseNewsContent :: "runtime \<Rightarrow> parser \<Rightarrow> document \<Rightarrow> nat \<Rightarrow> article list" where
  "parseNewsContent rt p d k = newsEach rt p (articleElements p d) k"

fun ecommerceEach :: "runtime \<Rightarrow> parser \<Rightarrow> element list \<Rightarrow> nat \<Rightarrow> article list" where
  "ecommerceEach rt p [] k = []"
| "ecommerceEach rt p (el # els) k =
     (let sels = selectors (siteInfo p);
          title0 = extractText el (sels Title);
          content0 = extractText el (sels Content);
          link0 = extractLink p el (sels Link);
          price0 = extractText el (sels Price)
      in if title0 \<noteq> [] then
           \<lparr> title = trim title0, link = link0,
             description = orElse content0 (js ''Product details'')
                           @ (if price0 \<noteq> [] then js '' - '' @ price0 else []),
             content = generateProductContent title0 content0 price0,
             pubDate = toUTCString (Some (clock rt k)),
             guid = generateGuid p (orElse link0 title0),
             image = None, author = None, category = Some (js ''Product''),
             needsFullContent = None \<rparr>
           # ecommerceEach rt p els (Suc k)
         else ecommerceEach rt p els k)"

definition parseECommerceContent :: "runtime \<Rightarrow> parser \<Rightarrow> document \<Rightarrow> nat \<Rightarrow> article list" where
  "parseECommerceContent rt p d k = ecommerceEach rt p (articleElements p d) k"

fun repositoryEach :: "runtime \<Rightarrow> parser \<Rightarrow> element list \<Rightarrow> nat \<Rightarrow> article list" where
  "repositoryEach rt p [] k = []"
| "repositoryEach rt p (el # els) k =
     (let sels = selectors (siteInfo p);
          title0 = extractText el (sels Title);
          content0 = extractText el (sels Content);
          link0 = extractLink p el (sels Link);
          date0 = extractDate el (sels Date)
      in if title0 \<noteq> [] then
           \<lparr> title = trim title0, link = link0, description = orElse content0 title0,
             content = content0,
             pubDate = fst (pubDateOf rt date0 k), guid = generateGuid p (orElse link0 title0),
             image = None, author = None, category = Some (js ''Repository''),
             needsFullContent = None \<rparr>
           # repositoryEach rt p els (snd (pubDateOf rt date0 k))
         else repositoryEach rt p els k)"

definition parseRepositoryContent :: "runtime \<Rightarrow> parser \<Rightarrow> document \<Rightarrow> nat \<Rightarrow> article list" where
  "parseRepositoryContent rt p d k = repositoryEach rt p (articleElements p d) k"

fun genericEach :: "runtime \<Rightarrow> parser \<Rightarrow> element list \<Rightarrow> nat \<Rightarrow> article list" where
  "genericEach rt p [] k = []"
| "genericEach rt p (el # els) k =
     (let sels = selectors (siteInfo p);
          title0 = extractText el (sels Title);
          content0 = extractText el (sels Content);
          link0 = extractLink p el (sels Link);
          date0 = extractDate el (sels Date)
      in if title0 \<noteq> [] \<and> length title0 > 5 then
           \<lparr> title = trim title0, link = link0, description = generateSummary content0 200,
             content = content0,
             pubDate = fst (pubDateOf rt date0 k), guid = generateGuid p (orElse link0 title0),
             image = None, author = None, category = None, needsFullContent = None \<rparr>
           # genericEach rt p els (snd (pubDateOf rt date0 k))
         else genericEach rt p els k)"

definition parseGenericContent :: "runtime \<Rightarrow> parser \<Rightarrow> document \<Rightarrow> nat \<Rightarrow> article list" where
  "parseGenericContent rt p d k = genericEach rt p (articleElements p d) k"

text \<open>The blog strategy for every platform but Movable Type.\<close>

fun blogEach :: "runtime \<Rightarrow> parser \<Rightarrow> element list \<Rightarrow> nat \<Rightarrow> article list" where
  "blogEach rt p [] k = []"
| "blogEach rt p (el # els) k =
     (let sels = selectors (siteInfo p);
          title0 = extractText el (sels Title);
          content0 = extractText el (sels Content);
          link0 = extractLink p el (sels Link);
          date0 = extractDate el (sels Date)
      in if title0 \<noteq> [] then
           \<lparr> title = trim title0, link = link0, description = generateSummary content0 200,
             content = content0,
             pubDate = fst (pubDateOf rt date0 k), guid = generateGuid p (orElse link0 title0),
             image = None,
             author = Some (orElse (extractText el (sels Author)) (js ''Unknown'')),
             category = None, needsFullContent = None \<rparr>
           # blogEach rt p els (snd (pubDateOf rt date0 k))
         else blogEach rt p els k)"

text \<open>
  The portfolio strategy for pages without an embedded JSON reference; \<open>index\<close> is the
  position of the element in the selection.
\<close>

fun portfolioEach :: "runtime \<Rightarrow> parser \<Rightarrow> element list \<Rightarrow> nat \<Rightarrow> nat \<Rightarrow> article list" where
  "portfolioEach rt p [] index k = []"
| "portfolioEach rt p (el # els) index k =
     (let sels = selectors (siteInfo p);
          title0 = orElse (extractText el (sels Title)) (js ''Project '' @ showNat (index + 1));
          content0 = extractText el (sels Content);
          link0 = extractLink p el (sels Link);
          image0 = extractImage p el (sels Image)
      in if title0 \<noteq> [] then
           \<lparr> title = trim title0, link = link0,
             description = orElse (trim content0) (js ''View details of '' @ title0),
             content = generatePortfolioContent title0 content0 image0,
             pubDate = toUTCString (Some (clock rt k)),
             guid = generateGuid p (orElse link0 title0),
             image = image0, author = None, category = None, needsFullContent = None \<rparr>
           # portfolioEach rt p els (Suc index) (Suc k)
         else portfolioEach rt p els (Suc index) k)"

subsection \<open>The embedded-data strategy\<close>

text \<open>
  \<open>html.match(/"preload"[^>]*href="([^"]*\/_json\/[^"]*\.json)"/)\<close>, the first group
  of the match. The group holds no quote, so it is the text between \<open>href="\<close> and the
  next quote, which has to end in \<open>.json\<close> with \<open>/_json/\<close> before that. The match
  starts at the leftmost \<open>"preload"\<close> that can be completed; \<open>[^>]*\<close> is greedy, so of
  the places where \<open>href="\<close> can follow, the last one is taken.
\<close>

definition endsWith :: "jstring \<Rightarrow> jstring \<Rightarrow> bool" where
  "endsWith s t = startsWith (rev s) (rev t)"

definition hrefValue :: "jstring \<Rightarrow> jstring option" where
  "hrefValue r =
     (let v = takeWhile (\<lambda>c. c \<noteq> 34) r
      in if dropWhile (\<lambda>c. c \<noteq> 34) r \<noteq> [] \<and> endsWith v (js ''.json'')
            \<and> includesStr (take (length v - 5) v) (js ''/_json/'')
         then Some v else None)"

fun lastHref :: "jstring \<Rightarrow> jstring option" where
  "lastHref [] = None"
| "lastHref (c # t) =
     (case (if c = 62 then None else lastHref t) of
        Some v \<Rightarrow> Some v
      | None \<Rightarrow> if startsWith (c # t) (js ''href='' @ [34]) then hrefValue (drop 6 (c # t)) else None)"

fun preloadMatch :: "jstring \<Rightarrow> jstring option" where
  "preloadMatch [] = None"
| "preloadMatch (c # s) =
     (case (if startsWith (c # s) ([34] @ js ''preload'' @ [34]) then lastHref (drop 9 (c # s)) else None) of
        Some v \<Rightarrow> Some v
      | None \<Rightarrow> preloadMatch s)"

text \<open>
  Reading parsed JSON as the source does. \<open>None\<close> is \<open>undefined\<close>. A number is kept
  as an integer of its sign: the walk only asks whether it is zero and whether it is
  positive.
\<close>

definition truthy :: "json option \<Rightarrow> bool" where
  "truthy v =
     (case v of None \<Rightarrow> False | Some JNull \<Rightarrow> False | Some (JBool b) \<Rightarrow> b
      | Some (JNumber n) \<Rightarrow> n \<noteq> 0 | Some (JString s) \<Rightarrow> s \<noteq> [] | Some x \<Rightarrow> True)"

text \<open>
  \<open>v.key\<close> for the keys the walk reads (\<open>nodeById\<close>, \<open>interactions\<close>, \<open>type\<close>,
  \<open>characters\<close>, \<open>actions\<close>, \<open>connectionURL\<close>): a TypeError on \<open>null\<close> and
  \<open>undefined\<close>, the property of an object, \<open>undefined\<close> on any other value.
\<close>

definition getProp :: "json option \<Rightarrow> jstring \<Rightarrow> error + json option" where
  "getProp v key =
     (case v of None \<Rightarrow> Inl TypeError | Some JNull \<Rightarrow> Inl TypeError
      | Some (JObject kvs) \<Rightarrow> Inr (map_of kvs key) | Some x \<Rightarrow> Inr None)"

text \<open>\<open>a.length > 0\<close> and \<open>a[0]\<close> for a value \<open>a\<close> that is not \<open>null\<close>.\<close>

definition lengthPositive :: "runtime \<Rightarrow> json \<Rightarrow> bool" where
  "lengthPositive rt a =
     (case a of JArray xs \<Rightarrow> xs \<noteq> [] | JString s \<Rightarrow> s \<noteq> []
      | JObject kvs \<Rightarrow>
          (case map_of kvs (js ''length'') of None \<Rightarrow> False | Some JNull \<Rightarrow> False
           | Some (JBool b) \<Rightarrow> b | Some (JNumber n) \<Rightarrow> n > 0 | Some v \<Rightarrow> greaterThanZero rt v)
      | x \<Rightarrow> False)"

definition firstOf :: "json \<Rightarrow> json option" where
  "firstOf a =
     (case a of JArray xs \<Rightarrow> (case xs of [] \<Rightarrow> None | x # r \<Rightarrow> Some x)
      | JString s \<Rightarrow> (case s of [] \<Rightarrow> None | c # r \<Rightarrow> Some (JString [c]))
      | JObject kvs \<Rightarrow> map_of kvs (js ''0'')
      | x \<Rightarrow> None)"

text \<open>
  \<open>Object.keys(v)\<close> with \<open>v[key]\<close> for each key. The keys of a parsed object are
  distinct.
\<close>

definition entries :: "json \<Rightarrow> (jstring \<times> json option) list" where
  "entries v =
     (case v of JObject kvs \<Rightarrow> map (\<lambda>k. (k, map_of kvs k)) (map fst kvs)
      | JArray xs \<Rightarrow> map (\<lambda>i. (showNat i, Some (xs ! i))) [0 ..< length xs]
      | JString s \<Rightarrow> map (\<lambda>i. (showNat i, Some (JString [s ! i]))) [0 ..< length s]
      | x \<Rightarrow> [])"

text \<open>\<open>s.replace(c, r)\<close> with a one-unit string \<open>c\<close>: the first occurrence only.\<close>

fun replaceFirst :: "nat \<Rightarrow> jstring \<Rightarrow> jstring \<Rightarrow> jstring" where
  "replaceFirst c r [] = []"
| "replaceFirst c r (x # s) = (if x = c then r @ s else x # replaceFirst c r s)"

text \<open>\<open>s.replace(/\n/g, r)\<close>.\<close>

definition replaceNewlines :: "jstring \<Rightarrow> jstring \<Rightarrow> jstring" where
  "replaceNewlines r s = concat (map (\<lambda>c. if c = 10 then r else [c]) s)"

definition generateFigmaProjectContent :: "runtime \<Rightarrow> parser \<Rightarrow> jstring \<Rightarrow> jstring \<Rightarrow> jstring" where
  \<open>generateFigmaProjectContent rt p projectName projectUrl =
     [10] @ js ''      <h2>'' @ capitalize rt projectName @ js '' - Design Project</h2>'' @ [10]
     @ js ''      <p>This project showcases innovative design work and creative problem-solving approaches.</p>'' @ [10]
     @ js ''      <h3>Key Highlights:</h3>'' @ [10]
     @ js ''      <ul>'' @ [10]
     @ js ''        <li>User-centered design approach</li>'' @ [10]
     @ js ''        <li>Innovative visual solutions</li>'' @ [10]
     @ js ''        <li>Comprehensive research and testing</li>'' @ [10]
     @ js ''        <li>Modern, clean aesthetic</li>'' @ [10]
     @ js ''      </ul>'' @ [10]
     @ js ''      <p><a href="'' @ baseUrl p @ projectUrl @ js ''">View full project details '' @ [8594]
     @ js ''</a></p>'' @ [10]
     @ js ''    ''\<close>

text \<open>
  The state of the walk: the articles pushed so far, the keys in \<open>processedItems\<close>, and
  the number of clock readings. \<open>Inl k\<close> is a TypeError raised inside the \<open>try\<close> block
  after \<open>k\<close> clock readings.
\<close>

type_synonym figmaState = "article list \<times> jstring list \<times> nat"

definition figmaInteraction :: "runtime \<Rightarrow> parser \<Rightarrow> jstring \<Rightarrow> figmaState \<Rightarrow> json \<Rightarrow> nat + figmaState" where
  "figmaInteraction rt p nodeId st interaction =
     (case st of (arts, seen, k) \<Rightarrow>
      case getProp (Some interaction) (js ''actions'') of Inl e \<Rightarrow> Inl k
      | Inr actions \<Rightarrow>
          if truthy actions \<and> (case actions of Some a \<Rightarrow> lengthPositive rt a | None \<Rightarrow> False) then
            (case getProp (case actions of Some a \<Rightarrow> firstOf a | None \<Rightarrow> None) (js ''connectionURL'') of
               Inl e \<Rightarrow> Inl k
             | Inr connectionURL \<Rightarrow>
                 if \<not> truthy connectionURL then Inr st
                 else (case connectionURL of
                   Some (JString u) \<Rightarrow>
                     if startsWith u (js ''/'') \<and> \<not> includesStr u (js ''http'') \<and> length u > 1 then
                       (let projectName = replaceFirst 45 [32] (replaceFirst 47 [] u);
                            projectKey = js ''project-'' @ projectName
                        in if projectName \<noteq> [] \<and> projectKey \<notin> set seen \<and> length projectName < 30 then
                             Inr (arts @
                                  [\<lparr> title = capitalize rt projectName @ js '' - Portfolio Project'',
                                     link = baseUrl p @ u,
                                     description = js ''Explore the '' @ projectName
                                       @ js '' project featuring innovative design work, UX research, and creative solutions.'',
                                     content = generateFigmaProjectContent rt p projectName u,
                                     pubDate = toUTCString (Some (clock rt k)),
                                     guid = js ''figma-project-'' @ nodeId @ js ''-'' @ showInt (clock rt (Suc k)),
                                     image = None, author = None, category = Some (js ''Design''),
                                     needsFullContent = None \<rparr>],
                                  seen @ [projectKey], k + 2)
                           else Inr st)
                     else Inr st
                 | x \<Rightarrow> Inl k))
          else Inr st)"

fun figmaInteractions :: "runtime \<Rightarrow> parser \<Rightarrow> jstring \<Rightarrow> figmaState \<Rightarrow> json list \<Rightarrow> nat + figmaState" where
  "figmaInteractions rt p nodeId st [] = Inr st"
| "figmaInteractions rt p nodeId st (i # rest) =
     (case figmaInteraction rt p nodeId st i of
        Inl k \<Rightarrow> Inl k
      | Inr st' \<Rightarrow> figmaInteractions rt p nodeId st' rest)"

definition figmaText :: "runtime \<Rightarrow> parser \<Rightarrow> jstring \<Rightarrow> figmaState \<Rightarrow> jstring \<Rightarrow> figmaState" where
  "figmaText rt p nodeId st characters =
     (case st of (arts, seen, k) \<Rightarrow>
      let text = trim characters;
          lower = toLowerCase text
      in if length text > 30 \<and> length text < 200
            \<and> (includesStr lower (js ''design'') \<or> includesStr lower (js ''project'')
               \<or> includesStr lower (js ''developed'') \<or> includesStr lower (js ''led'')) then
           (let textKey = js ''text-'' @ take 20 text
            in if textKey \<notin> set seen then
                 (arts @
                  [\<lparr> title = trim (replaceNewlines [32]
                               (if length text > 60 then take 57 text @ js ''...'' else text)),
                     link = url (siteInfo p),
                     description = trim (replaceNewlines [32] text),
                     content = js ''<p>'' @ replaceNewlines (js ''</p><p>'') text @ js ''</p>'',
                     pubDate = toUTCString (Some (clock rt k)),
                     guid = js ''figma-text-'' @ nodeId @ js ''-'' @ showInt (clock rt (Suc k)),
                     image = None, author = None, category = Some (js ''Design''),
                     needsFullContent = None \<rparr>],
                  seen @ [textKey], k + 2)
               else st)
         else st)"

definition figmaNode :: "runtime \<Rightarrow> parser \<Rightarrow> figmaState \<Rightarrow> jstring \<times> json option \<Rightarrow> nat + figmaState" where
  "figmaNode rt p st entry =
     (case entry of (nodeId, node) \<Rightarrow>
      case getProp node (js ''interactions'') of Inl e \<Rightarrow> Inl (snd (snd st))
      | Inr interactions \<Rightarrow>
          (case (case interactions of Some (JArray xs) \<Rightarrow> figmaInteractions rt p nodeId st xs
                 | x \<Rightarrow> Inr st) of
             Inl k \<Rightarrow> Inl k
           | Inr st' \<Rightarrow>
               (case getProp node (js ''type'') of Inl e \<Rightarrow> Inl (snd (snd st'))
                | Inr ty \<Rightarrow>
                    if ty = Some (JString (js ''TEXT'')) then
                      (case getProp node (js ''characters'') of Inl e \<Rightarrow> Inl (snd (snd st'))
                       | Inr characters \<Rightarrow>
                           if \<not> truthy characters then Inr st'
                           else (case characters of
                                   Some (JString s) \<Rightarrow> Inr (figmaText rt p nodeId st' s)
                                 | x \<Rightarrow> Inl (snd (snd st'))))
                    else Inr st')))"

fun figmaNodes :: "runtime \<Rightarrow> parser \<Rightarrow> figmaState \<Rightarrow> (jstring \<times> json option) list \<Rightarrow> nat + figmaState" where
  "figmaNodes rt p st [] = Inr st"
| "figmaNodes rt p st (e # rest) =
     (case figmaNode rt p st e of
        Inl k \<Rightarrow> Inl k
      | Inr st' \<Rightarrow> figmaNodes rt p st' rest)"

text \<open>
  The walk over \<open>jsonData.nodeById\<close>, when \<open>jsonData && jsonData.nodeById\<close> holds;
  otherwise nothing is pushed.
\<close>

definition figmaWalk :: "runtime \<Rightarrow> parser \<Rightarrow> json \<Rightarrow> nat \<Rightarrow> nat + figmaState" where
  "figmaWalk rt p jsonData k =
     (if truthy (Some jsonData) then
        (case getProp (Some jsonData) (js ''nodeById'') of Inl e \<Rightarrow> Inl k
         | Inr nodeById \<Rightarrow>
             (case nodeById of None \<Rightarrow> Inr ([], [], k)
              | Some nb \<Rightarrow> if truthy nodeById then figmaNodes rt p ([], [], k) (entries nb)
                           else Inr ([], [], k)))
      else Inr ([], [], k))"

text \<open>
  \<open>parseFigmaBasedSite\<close>. Every exit through \<open>catch\<close>, the missing \<open>preload\<close> link and
  an empty list of articles all end in \<open>parseGenericContent\<close>.
\<close>

definition parseFigmaBasedSite :: "runtime \<Rightarrow> parser \<Rightarrow> document \<Rightarrow> nat \<Rightarrow> article list" where
  "parseFigmaBasedSite rt p d k =
     (case preloadMatch (markup d) of
        None \<Rightarrow> parseGenericContent rt p d k
      | Some path \<Rightarrow>
          (case fetch rt (baseUrl p @ path) of
             NetworkError \<Rightarrow> parseGenericContent rt p d k
           | Response isOk st bd \<Rightarrow>
               if \<not> isOk then parseGenericContent rt p d k
               else (case bd of None \<Rightarrow> parseGenericContent rt p d k
                 | Some b \<Rightarrow>
                     (case parseJson rt b of
                        None \<Rightarrow> parseGenericContent rt p d k
                      | Some jsonData \<Rightarrow>
                          (case figmaWalk rt p jsonData k of
                             Inl k' \<Rightarrow> parseGenericContent rt p d k'
                           | Inr (arts, seen, k') \<Rightarrow>
                               if length arts > 0 then take 10 arts
                               else parseGenericContent rt p d k')))))"

definition parsePortfolioContent :: "runtime \<Rightarrow> parser \<Rightarrow> document \<Rightarrow> nat \<Rightarrow> article list" where
  "parsePortfolioContent rt p d k =
     (if includesStr (markup d) (js ''_json/'') \<and> includesStr (markup d) (js ''.json'')
      then parseFigmaBasedSite rt p d k
      else take 20 (portfolioEach rt p (articleElements p d) 0 k))"

subsection \<open>The Movable Type strategy\<close>

text \<open>
  The literals of this strategy that are not ASCII, by their code units: the author's
  name (U+962E U+4E00 U+5CF0), the prefix of the description of a list item, the
  sentence of its content, the \<open>more articles\<close> marker of the list (U+66F4 U+591A U+6587
  U+7AE0) and the \<open>comment\<close> marker of the article page (U+7559 U+8A00).
\<close>

definition authorName :: jstring where
  "authorName = [38446, 19968, 23792]"

definition listItemPrefix :: jstring where
  "listItemPrefix = [38446, 19968, 23792, 30340, 32593, 32476, 26085, 24535, 65306]"

definition listItemSentence :: jstring where
  "listItemSentence =
     [36825, 26159, 38446, 19968, 23792, 32593, 32476, 26085, 24535, 30340, 19968, 31687, 25991,
      31456, 12290]"

definition moreArticles :: jstring where
  "moreArticles = [26356, 22810, 25991, 31456]"

definition commentMarker :: jstring where
  "commentMarker = [30041, 35328]"

text \<open>\<open>.html()\<close> of a selection: the markup of the children of its first element.\<close>

definition innerHtml :: "runtime \<Rightarrow> element list \<Rightarrow> jstring" where
  "innerHtml rt els = (case els of [] \<Rightarrow> [] | (anc, n) # rest \<Rightarrow> serialize rt (childNodes n))"

text \<open>\<open>s.replace(/<[^>]*>/g, '')\<close>.\<close>

function stripTags :: "jstring \<Rightarrow> jstring" where
  "stripTags [] = []"
| "stripTags (c # s) =
     (if c = 60 \<and> 62 \<in> set s then stripTags (tl (dropWhile (\<lambda>x. x \<noteq> 62) s))
      else c # stripTags s)"
  by pat_completeness auto
termination
proof (relation "measure length")
  fix c :: nat and s :: jstring
  have "length (tl (dropWhile (\<lambda>x. x \<noteq> 62) s)) \<le> length s"
    using length_dropWhile_le [of "\<lambda>x. x \<noteq> 62" s] by simp
  then show "(tl (dropWhile (\<lambda>x. x \<noteq> 62) s), c # s) \<in> measure length" by simp
qed simp_all

text \<open>
  \<open>cleanRuanyifengContent\<close>: the markup is parsed, the elements matched by the two
  \<open>remove()\<close> calls are taken out, image and anchor addresses are completed, and the
  tree is written out again.
\<close>

fun prune :: "selector \<Rightarrow> node list \<Rightarrow> node \<Rightarrow> node" where
  "prune s anc (TextNode t) = TextNode t"
| "prune s anc (Element t a cs) =
     Element t a (map (prune s (Element t a cs # anc))
                    (filter (\<lambda>n. \<not> matches s (Element t a cs # anc) n) cs))"

definition removeAll :: "selector \<Rightarrow> node list \<Rightarrow> node list" where
  "removeAll s ns = map (prune s []) (filter (\<lambda>n. \<not> matches s [] n) ns)"

text \<open>\<open>.attr(name, value)\<close>: an attribute keeps its place, a new one comes last.\<close>

fun setAttr :: "jstring \<Rightarrow> jstring \<Rightarrow> (jstring \<times> jstring) list \<Rightarrow> (jstring \<times> jstring) list" where
  "setAttr k v [] = [(k, v)]"
| "setAttr k v ((k', v') # r) = (if k' = k then (k, v) # r else (k', v') # setAttr k v r)"

definition fixImageAttrs :: "(jstring \<times> jstring) list \<Rightarrow> (jstring \<times> jstring) list" where
  "fixImageAttrs a =
     setAttr (js ''style'') (js ''max-width: 100%; height: auto;'')
       (case map_of a (js ''src'') of
          None \<Rightarrow> a
        | Some src \<Rightarrow>
            if src \<noteq> [] \<and> \<not> startsWith src (js ''http'') then
              (if startsWith src (js ''/'')
               then setAttr (js ''src'') (js ''https://www.ruanyifeng.com'' @ src) a
               else setAttr (js ''src'') (js ''https://www.ruanyifeng.com/blog/'' @ src) a)
            else a)"

definition fixLinkAttrs :: "(jstring \<times> jstring) list \<Rightarrow> (jstring \<times> jstring) list" where
  "fixLinkAttrs a =
     (case map_of a (js ''href'') of
        None \<Rightarrow> a
      | Some href \<Rightarrow>
          if href \<noteq> [] \<and> \<not> startsWith href (js ''http'') \<and> \<not> startsWith href (js ''mailto'')
             \<and> startsWith href (js ''/'')
          then setAttr (js ''href'') (js ''https://www.ruanyifeng.com'' @ href) a
          else a)"

fun fixImages :: "node \<Rightarrow> node" where
  "fixImages (TextNode t) = TextNode t"
| "fixImages (Element t a cs) =
     Element t (if t = js ''img'' then fixImageAttrs a else a) (map fixImages cs)"

fun fixLinks :: "node \<Rightarrow> node" where
  "fixLinks (TextNode t) = TextNode t"
| "fixLinks (Element t a cs) =
     Element t (if t = js ''a'' then fixLinkAttrs a else a) (map fixLinks cs)"

definition cleanRuanyifengContent :: "runtime \<Rightarrow> jstring \<Rightarrow> jstring" where
  "cleanRuanyifengContent rt c =
     (if c = [] then c
      else serialize rt
             (map fixLinks (map fixImages
                (removeAll (sel ''script, style, .advertisement'')
                   (removeAll (sel ''.asset-footer, .entry-footer, .comments, #comments, .trackbacks, .related-posts'')
                      (parseDocument rt c))))))"

text \<open>
  \<open>fetchRuanyifengArticleContent\<close>: \<open>None\<close> is \<open>null\<close>, returned when the request
  fails, when the status is not a success, when the body cannot be read, and when no
  content of at least 100 code units is found.
\<close>

fun firstContent :: "runtime \<Rightarrow> document \<Rightarrow> selector list \<Rightarrow> jstring" where
  "firstContent rt page [] = []"
| "firstContent rt page (s # rest) =
     (if length (query page s) > 0 \<and> innerHtml rt (query page s) \<noteq> []
      then innerHtml rt (query page s)
      else firstContent rt page rest)"

definition contentSelectors :: "selector list" where
  "contentSelectors =
     [sel ''.asset-body'', sel ''.entry-content'', sel ''.asset-content'', sel ''#main .asset-body'',
      sel ''#content .entry-content'']"

definition joinLines :: "jstring list \<Rightarrow> jstring" where
  "joinLines ps = (case ps of [] \<Rightarrow> [] | x # r \<Rightarrow> x @ concat (map (\<lambda>y. 10 # y) r))"

definition paragraphsOf :: "document \<Rightarrow> jstring list" where
  "paragraphsOf page =
     map (\<lambda>t. js ''<p>'' @ t @ js ''</p>'')
       (filter (\<lambda>t. length t > 20 \<and> \<not> includesStr t commentMarker \<and> \<not> includesStr t (js ''Email''))
          (map (\<lambda>e. trim (textOf [e])) (query page (sel ''p''))))"

definition fetchRuanyifengArticleContent :: "runtime \<Rightarrow> jstring \<Rightarrow> jstring option" where
  "fetchRuanyifengArticleContent rt articleUrl =
     (case fetch rt articleUrl of
        NetworkError \<Rightarrow> None
      | Response isOk st bd \<Rightarrow>
          if \<not> isOk then None
          else (case bd of None \<Rightarrow> None
            | Some html \<Rightarrow>
                (let page = \<lparr> markup = html, tree = parseDocument rt html \<rparr>;
                     content0 = firstContent rt page contentSelectors;
                     content1 =
                       (if content0 = [] then
                          (let title0 = trim (textOf (take 1 (query page (sel ''h1, .asset-name, .entry-title''))));
                               paragraphs = paragraphsOf page
                           in if length paragraphs > 0
                              then js ''<h2>'' @ title0 @ js ''</h2>'' @ [10] @ joinLines (take 10 paragraphs)
                              else content0)
                        else content0)
                 in if content1 = [] \<or> length content1 < 100 then None
                    else Some (cleanRuanyifengContent rt content1))))"

text \<open>
  The two zones. The state holds the articles pushed so far, \<open>processedLinks\<close> and the
  number of clock readings.
\<close>

type_synonym mtState = "article list \<times> jstring list \<times> nat"

definition attrOrEmpty :: "element list \<Rightarrow> jstring \<Rightarrow> jstring" where
  "attrOrEmpty els name = (case attr els name of None \<Rightarrow> [] | Some v \<Rightarrow> v)"

definition mtEntry :: "runtime \<Rightarrow> parser \<Rightarrow> mtState \<Rightarrow> element \<Rightarrow> mtState" where
  "mtEntry rt p st el =
     (case st of (arts, seen, k) \<Rightarrow>
      let titleEl = find1 el (sel ''.asset-name.entry-title a, .asset-name.entry-title'');
          title0 = (if length titleEl > 0 then trim (textOf titleEl) else []);
          link0 = (if isSel titleEl (sel ''a'') then resolveUrl p (attrOrEmpty titleEl (js ''href''))
                   else url (siteInfo p));
          contentEl = find1 el (sel ''.asset-content, .asset-body, .entry-content'');
          content0 = (if length contentEl > 0 then innerHtml rt contentEl else []);
          dateEl = find1 el (sel ''.asset-date, .published, time'');
          dateText = (if length dateEl > 0 then orElse (attrOrEmpty dateEl (js ''datetime'')) (textOf dateEl)
                      else []);
          pubDate0 = (if dateText \<noteq> [] \<and> dateParse rt dateText \<noteq> None
                      then toUTCString (dateParse rt dateText)
                      else toUTCString (Some (clock rt k)))
      in if title0 \<noteq> [] \<and> link0 \<notin> set seen then
           (arts @
            [\<lparr> title = title0, link = link0,
               description = generateSummary
                 (if content0 \<noteq> [] then concat (map textContent (parseFragment rt content0)) else title0) 200,
               content = orElse content0 (js ''<p>'' @ title0 @ js ''</p>''),
               pubDate = pubDate0, guid = generateGuid p link0,
               image = None, author = Some authorName, category = Some (js ''Blog''),
               needsFullContent = Some (content0 = [] \<or> length content0 < 500) \<rparr>],
            seen @ [link0], Suc k)
         else (arts, seen, Suc k))"

definition mtListItem :: "runtime \<Rightarrow> parser \<Rightarrow> mtState \<Rightarrow> element \<Rightarrow> mtState" where
  "mtListItem rt p st el =
     (case st of (arts, seen, k) \<Rightarrow>
      let linkEl = find1 el (sel ''a'')
      in if length linkEl > 0 then
           (let title0 = trim (textOf linkEl);
                link0 = resolveUrl p (attrOrEmpty linkEl (js ''href''));
                dateSpan = take 1 (find1 el (sel ''span''));
                dateText = (if length dateSpan > 0 then trim (replaceFirst 187 [] (textOf dateSpan)) else []);
                parsed = dateParse rt (dateText @ js '' 00:00:00'');
                pubDate0 = (if dateText \<noteq> [] \<and> parsed \<noteq> None then toUTCString parsed
                            else toUTCString (Some (clock rt k)))
            in if title0 \<noteq> [] \<and> link0 \<notin> set seen \<and> \<not> includesStr title0 moreArticles then
                 (arts @
                  [\<lparr> title = title0, link = link0,
                     description = listItemPrefix @ title0,
                     content = js ''<h2>'' @ title0 @ js ''</h2><p>'' @ listItemSentence @ js ''</p>'',
                     pubDate = pubDate0, guid = generateGuid p link0,
                     image = None, author = Some authorName, category = Some (js ''Blog''),
                     needsFullContent = Some True \<rparr>],
                  seen @ [link0], Suc k)
               else (arts, seen, Suc k))
         else st)"

text \<open>
  The secondary fetches: the first five articles marked \<open>needsFullContent\<close>, in order;
  \<open>n\<close> is the number of fetches still allowed. An article whose fetch gives nothing is
  left as it is.
\<close>

definition enrich :: "runtime \<Rightarrow> article \<Rightarrow> article" where
  "enrich rt a =
     (case fetchRuanyifengArticleContent rt (link a) of
        None \<Rightarrow> a
      | Some fullContent \<Rightarrow>
          if fullContent \<noteq> []
          then a\<lparr> content := fullContent,
                 description := generateSummary (stripTags fullContent) 300 \<rparr>
          else a)"

fun enrichFirst :: "runtime \<Rightarrow> nat \<Rightarrow> article list \<Rightarrow> article list" where
  "enrichFirst rt n [] = []"
| "enrichFirst rt n (a # rest) =
     (if needsFullContent a = Some True \<and> n > 0
      then enrich rt a # enrichFirst rt (n - 1) rest
      else a # enrichFirst rt n rest)"

definition parseMovableTypeBlog :: "runtime \<Rightarrow> parser \<Rightarrow> document \<Rightarrow> nat \<Rightarrow> article list" where
  "parseMovableTypeBlog rt p d k =
     (let st1 = foldl (mtEntry rt p) ([], [], k) (query d (sel ''.entry-asset''));
          st2 = foldl (mtListItem rt p) st1 (query d (sel ''#homepage .module-list-item''))
      in take 20 (map (\<lambda>a. a\<lparr> needsFullContent := None \<rparr>) (enrichFirst rt 5 (fst st2))))"

definition parseBlogContent :: "runtime \<Rightarrow> parser \<Rightarrow> document \<Rightarrow> nat \<Rightarrow> article list" where
  "parseBlogContent rt p d k =
     (if platform (siteInfo p) = js ''movable-type'' then parseMovableTypeBlog rt p d k
      else blogEach rt p (articleElements p d) k)"

subsection \<open>Dispatch\<close>

definition parseContent :: "runtime \<Rightarrow> parser \<Rightarrow> document \<Rightarrow> article list" where
  "parseContent rt p d =
     (let t = type (siteInfo p)
      in if t = js ''portfolio'' then parsePortfolioContent rt p d 0
         else if t = js ''blog'' then parseBlogContent rt p d 0
         else if t = js ''news'' then parseNewsContent rt p d 0
         else if t = js ''ecommerce'' then parseECommerceContent rt p d 0
         else if t = js ''repository'' then parseRepositoryContent rt p d 0
         else parseGenericContent rt p d 0)"

text \<open>
  An extraction as the callers do it: \<open>new ContentParser(siteInfo)\<close>, then
  \<open>parseContent(html)\<close>.
\<close>

definition extractRecords :: "runtime \<Rightarrow> siteInfo \<Rightarrow> document \<Rightarrow> error + article list" where
  "extractRecords rt si d =
     (case newContentParser rt si of Inl e \<Rightarrow> Inl e | Inr p \<Rightarrow> Inr (parseContent rt p d))"

section \<open>Pages of the repository's tests\<close>

text \<open>The WordPress page of the repository's test script, as markup and as tree.\<close>

definition wordpressTestPage :: document where
  \<open>wordpressTestPage =
     \<lparr> markup = js ''<html><head><meta name="generator" content="WordPress 6.0"></head><body><article class="post"><h2 class="entry-title">Blog Post</h2></article></body></html>'',
       tree = [Element (js ''html'') []
         [Element (js ''head'') []
            [Element (js ''meta'') [(js ''name'', js ''generator''), (js ''content'', js ''WordPress 6.0'')] []],
          Element (js ''body'') []
            [Element (js ''article'') [(js ''class'', js ''post'')]
               [Element (js ''h2'') [(js ''class'', js ''entry-title'')] [TextNode (js ''Blog Post'')]]]]] \<rparr>\<close>

section \<open>What a strategy has collected\<close>


definition movableTypeCollected :: "runtime \<Rightarrow> parser \<Rightarrow> document \<Rightarrow> nat \<Rightarrow> article list" where
  "movableTypeCollected rt p d k =
     fst (foldl (mtListItem rt p) (foldl (mtEntry rt p) ([], [], k) (query d (sel ''.entry-asset'')))
            (query d (sel ''#homepage .module-list-item'')))"



section \<open>Notions of the specification\<close>

text \<open>
  The whitespace-collapsed, trimmed form of a text, in the specification's words: its
  words (the maximal runs of code units that are not white space), separated by single
  spaces. It is compared with what \<open>generateSummary\<close> computes.
\<close>

function wordsOf :: "jstring \<Rightarrow> jstring list" where
  "wordsOf s =
     (let s' = dropWhile isSpace s
      in if s' = [] then []
         else takeWhile (\<lambda>c. \<not> isSpace c) s' # wordsOf (dropWhile (\<lambda>c. \<not> isSpace c) s'))"
  by pat_completeness auto
termination
proof (relation "measure length")
  fix s s' :: jstring
  assume s': "s' = dropWhile isSpace s" and ne: "s' \<noteq> []"
  from ne obtain a t where at: "s' = a # t" by (cases s') auto
  have "\<not> isSpace a" using at s' hd_dropWhile [of isSpace s] by (metis list.sel(1) ne)
  then have "dropWhile (\<lambda>c. \<not> isSpace c) s' = dropWhile (\<lambda>c. \<not> isSpace c) t" using at by simp
  then have "length (dropWhile (\<lambda>c. \<not> isSpace c) s') \<le> length t"
    by (simp add: length_dropWhile_le)
  also have "length t < length s'" using at by simp
  also have "length s' \<le> length s" using s' by (simp add: length_dropWhile_le)
  finally show "(dropWhile (\<lambda>c. \<not> isSpace c) s', s) \<in> measure length" by simp
qed simp

declare wordsOf.simps [simp del]

definition specCollapsed :: "jstring \<Rightarrow> jstring" where
  "specCollapsed s = (case wordsOf s of [] \<Rightarrow> [] | w # r \<Rightarrow> w @ concat (map (\<lambda>x. 32 # x) r))"

text \<open>Stripping white space at the end only, the second half of \<open>trim\<close>.\<close>

definition rtrim :: "jstring \<Rightarrow> jstring" where
  "rtrim s = rev (dropWhile isSpace (rev s))"

text \<open>
  A secondary fetch fails: the request is rejected (no connection, time-out), the status
  is not a success, or the body cannot be read. For the embedded JSON, a body that does
  not parse is a failure as well (a malformed payload).
\<close>

definition fetchFails :: "runtime \<Rightarrow> jstring \<Rightarrow> bool" where
  "fetchFails rt u =
     (case fetch rt u of NetworkError \<Rightarrow> True | Response isOk st bd \<Rightarrow> \<not> isOk \<or> bd = None)"

definition jsonFails :: "runtime \<Rightarrow> jstring \<Rightarrow> bool" where
  "jsonFails rt u =
     (case fetch rt u of NetworkError \<Rightarrow> True
      | Response isOk st bd \<Rightarrow>
          \<not> isOk \<or> (case bd of None \<Rightarrow> True | Some b \<Rightarrow> parseJson rt b = None))"

text \<open>An article is marked for a secondary fetch.\<close>

definition needsFetch :: "article \<Rightarrow> bool" where
  "needsFetch a \<longleftrightarrow> needsFullContent a = Some True"


text \<open>
  An article with the fields that depend on the time of the extraction blanked: the
  publication date, and the identifier unless it is one made by \<open>generateGuid\<close> (the
  embedded-data strategy writes the time into its identifiers).
\<close>

definition timeless :: "article \<Rightarrow> article" where
  "timeless a =
     a\<lparr> pubDate := [], guid := (if startsWith (guid a) (js ''rssos-'') then guid a else []) \<rparr>"

text \<open>
  Two states of a walk that agree but for the fields blanked by \<open>timeless\<close> and the
  number of clock readings, and two outcomes of a walk that agree in that sense.
\<close>

definition sameButTime :: "article list \<times> jstring list \<times> nat \<Rightarrow> article list \<times> jstring list \<times> nat \<Rightarrow> bool" where
  "sameButTime s1 s2 \<longleftrightarrow> map timeless (fst s1) = map timeless (fst s2) \<and> fst (snd s1) = fst (snd s2)"


section \<open>A runtime and pages for the examples\<close>

text \<open>
  The theorems below hold for every runtime. Their examples are evaluated with this
  one: no network, no JSON, no dates in text, a clock that stands still, and the origin
  of a plain \<open>http\<close> or \<open>https\<close> address (scheme and host, neither port nor user).
\<close>

definition simpleOrigin :: "jstring \<Rightarrow> jstring option" where
  "simpleOrigin u =
     (let host = (\<lambda>r. takeWhile (\<lambda>c. c \<noteq> 47 \<and> c \<noteq> 63 \<and> c \<noteq> 35) r)
      in if startsWith u (js ''https://'') \<and> host (drop 8 u) \<noteq> []
         then Some (js ''https://'' @ host (drop 8 u))
         else if startsWith u (js ''http://'') \<and> host (drop 7 u) \<noteq> []
         then Some (js ''http://'' @ host (drop 7 u))
         else None)"

definition asciiUpper :: "jstring \<Rightarrow> jstring" where
  "asciiUpper s = map (\<lambda>c. if 97 \<le> c \<and> c \<le> 122 then c - 32 else c) s"

definition offlineRuntime :: runtime where
  "offlineRuntime =
     \<lparr> urlOrigin = simpleOrigin, fetch = (\<lambda>u. NetworkError), parseDocument = (\<lambda>h. []),
       parseFragment = (\<lambda>h. [TextNode h]), serialize = (\<lambda>ns. concat (map textContent ns)),
       parseJson = (\<lambda>b. None), dateParse = (\<lambda>s. None), clock = (\<lambda>k. 0),
       toUpperCase = asciiUpper, greaterThanZero = (\<lambda>v. False) \<rparr>"

text \<open>
  A news page in the manner of the one in the repository's test script, with \<open>n\<close>
  articles of one headline each.
\<close>

definition newsArticleNode :: node where
  "newsArticleNode = Element (js ''article'') [] [Element (js ''h2'') [] [TextNode (js ''Headline'')]]"

definition newsBody :: "nat \<Rightarrow> node" where
  \<open>newsBody n =
     Element (js ''body'') []
       (Element (js ''script'') [(js ''type'', js ''application/ld+json'')]
          [TextNode (js ''{"@type":"NewsArticle"}'')]
        # replicate n newsArticleNode)\<close>

definition newsHtml :: "nat \<Rightarrow> node" where
  "newsHtml n =
     Element (js ''html'') []
       [Element (js ''head'') []
          [Element (js ''meta'') [(js ''property'', js ''og:type''), (js ''content'', js ''article'')] []],
        newsBody n]"

definition newsPage :: "nat \<Rightarrow> document" where
  \<open>newsPage n =
     \<lparr> markup = js ''<html><head><meta property="og:type" content="article"></head><body><script type="application/ld+json">{"@type":"NewsArticle"}</script>''
                @ concat (replicate n (js ''<article><h2>Headline</h2></article>''))
                @ js ''</body></html>'',
       tree = [newsHtml n] \<rparr>\<close>

text \<open>The classification record that the news detector's candidate gives for such a page.\<close>

definition newsInfo :: "nat \<Rightarrow> siteInfo" where
  "newsInfo n = assign (initialInfo (js ''https://news-site.com'')) (detectNews (newsPage n) (js ''https://news-site.com''))"

definition newsParser :: "nat \<Rightarrow> parser" where
  "newsParser n = \<lparr> siteInfo = newsInfo n, baseUrl = js ''https://news-site.com'' \<rparr>"

text \<open>
  A classification record for a Movable Type blog, with selector rules in the manner of
  the blog record of the repository's test suite.
\<close>

definition movableTypeInfo :: siteInfo where
  "movableTypeInfo =
     \<lparr> type = js ''blog'', platform = js ''movable-type'', confidence = 80,
       selectors = [Articles \<mapsto> sel ''article'', Title \<mapsto> sel ''h2'', Content \<mapsto> sel ''.entry-content'',
                    Link \<mapsto> sel ''a'', Date \<mapsto> sel ''.published''],
       features = [], url = js ''https://blog.example.com'' \<rparr>"

definition movableTypeParser :: parser where
  "movableTypeParser = \<lparr> siteInfo = movableTypeInfo, baseUrl = js ''https://blog.example.com'' \<rparr>"

text \<open>
  A Movable Type home page whose list of recent articles has two items with the same
  address; the date ends in the code unit 187, the double angle that the strategy
  strips.
\<close>

definition movableTypePage :: document where
  \<open>movableTypePage =
     \<lparr> markup = js ''<html><body><div id="homepage"><div class="module-list-item"><span>2024.09.25 ''
                @ [187] @ js ''</span><a href="/blog/2024/09/weekly-issue-319.html">Weekly issue 319</a></div>''
                @ js ''<div class="module-list-item"><a href="/blog/2024/09/weekly-issue-319.html">Issue 319 again</a></div></div></body></html>'',
       tree = [Element (js ''html'') []
         [Element (js ''body'') []
            [Element (js ''div'') [(js ''id'', js ''homepage'')]
               [Element (js ''div'') [(js ''class'', js ''module-list-item'')]
                  [Element (js ''span'') [] [TextNode (js ''2024.09.25 '' @ [187])],
                   Element (js ''a'') [(js ''href'', js ''/blog/2024/09/weekly-issue-319.html'')]
                     [TextNode (js ''Weekly issue 319'')]],
                Element (js ''div'') [(js ''class'', js ''module-list-item'')]
                  [Element (js ''a'') [(js ''href'', js ''/blog/2024/09/weekly-issue-319.html'')]
                     [TextNode (js ''Issue 319 again'')]]]]]] \<rparr>\<close>

text \<open>
  A portfolio page that refers to embedded JSON, and a classification record with the
  selector rules of the portfolio record in the repository's test suite.
\<close>

definition figmaPage :: document where
  \<open>figmaPage =
     \<lparr> markup = js ''<html><head><link rel="preload" href="/_json/abc/site.json" as="fetch"></head><body><div class="project"><h3 class="project-title">Design Project</h3></div></body></html>'',
       tree = [Element (js ''html'') []
         [Element (js ''head'') []
            [Element (js ''link'') [(js ''rel'', js ''preload''), (js ''href'', js ''/_json/abc/site.json''),
                                   (js ''as'', js ''fetch'')] []],
          Element (js ''body'') []
            [Element (js ''div'') [(js ''class'', js ''project'')]
               [Element (js ''h3'') [(js ''class'', js ''project-title'')] [TextNode (js ''Design Project'')]]]]] \<rparr>\<close>

definition portfolioInfo :: siteInfo where
  "portfolioInfo =
     \<lparr> type = js ''portfolio'', platform = js ''portfolio'', confidence = 60,
       selectors = [Articles \<mapsto> sel ''.project'', Title \<mapsto> sel ''.project-title'',
                    Content \<mapsto> sel ''.project-description'', Link \<mapsto> sel ''a'', Image \<mapsto> sel ''img''],
       features = [], url = js ''https://portfolio.example.com'' \<rparr>"

definition portfolioParser :: parser where
  "portfolioParser = \<lparr> siteInfo = portfolioInfo, baseUrl = js ''https://portfolio.example.com'' \<rparr>"

(*THEOREMS*)
section \<open>The coordinator\<close>





text \<open>
  C1. The claim is that \<open>detectSiteType\<close> never raises and returns a result for every
  page. The registry of the constructor holds \<open>undefined\<close> in its second place, so the
  loop raises a TypeError there on every page and every URL, before the generic
  detector is reached.
\<close>

theorem detectSiteType_raises: "detectSiteType d u = Inl TypeError"
  by (simp add: detectSiteType_def detectors_def Let_def)



section \<open>The summary\<close>

lemma isSpace_32: "isSpace 32" by (simp add: isSpace_def)

lemma rtrim_Cons: "rtrim (x # s) = (if \<forall>y \<in> set (x # s). isSpace y then [] else x # rtrim s)"
  by (auto simp: rtrim_def dropWhile_append)

lemma trim_space: "isSpace c \<Longrightarrow> trim (c # s) = trim s"
  by (simp add: trim_def)

lemma trim_nonspace: "\<not> isSpace c \<Longrightarrow> trim (c # s) = c # rtrim s"
  by (auto simp: trim_def rtrim_def dropWhile_append)

lemma wordsOf_Nil: "wordsOf [] = []"
  by (simp add: wordsOf.simps)

lemma wordsOf_space: "isSpace c \<Longrightarrow> wordsOf (c # s) = wordsOf (dropWhile isSpace s)"
  by (subst wordsOf.simps, subst (2) wordsOf.simps) (simp add: Let_def)

lemma wordsOf_nonspace:
  "\<not> isSpace c \<Longrightarrow> wordsOf (c # s) = (c # takeWhile (\<lambda>c. \<not> isSpace c) s) # wordsOf (dropWhile (\<lambda>c. \<not> isSpace c) s)"
  by (subst wordsOf.simps) (simp add: Let_def)

lemma wordsOf_dropWhile: "wordsOf (dropWhile isSpace s) = wordsOf s"
  by (subst wordsOf.simps, subst (2) wordsOf.simps) (simp add: Let_def)

lemma collapse_nonempty: "s \<noteq> [] \<Longrightarrow> collapseSpaces s \<noteq> []"
  by (cases s) auto

lemma rtrim_collapse:
  "rtrim (collapseSpaces s) =
     takeWhile (\<lambda>c. \<not> isSpace c) s @ concat (map (\<lambda>x. 32 # x) (wordsOf (dropWhile (\<lambda>c. \<not> isSpace c) s)))"
proof (induction s rule: collapseSpaces.induct)
  case 1
  show ?case by (simp add: rtrim_def wordsOf_Nil)
next
  case (2 c s)
  show ?case
  proof (cases "isSpace c")
    case False
    then show ?thesis using 2(2) by (simp add: rtrim_Cons)
  next
    case True
    let ?s' = "dropWhile isSpace s"
    have ih: "rtrim (collapseSpaces ?s') =
       takeWhile (\<lambda>c. \<not> isSpace c) ?s' @ concat (map (\<lambda>x. 32 # x) (wordsOf (dropWhile (\<lambda>c. \<not> isSpace c) ?s')))"
      using 2(1) True by simp
    show ?thesis
    proof (cases ?s')
      case Nil
      show ?thesis using True
        by (simp add: Nil rtrim_Cons isSpace_32 wordsOf_space wordsOf_Nil)
    next
      case (Cons a t)
      have na: "\<not> isSpace a" using Cons hd_dropWhile [of isSpace s] by (metis list.sel(1) list.distinct(1))
      have "rtrim (32 # collapseSpaces ?s') = 32 # rtrim (collapseSpaces ?s')"
        using Cons na by (auto simp: rtrim_Cons)
      moreover have "wordsOf (c # s) = wordsOf ?s'" using True by (simp add: wordsOf_space)
      moreover have "wordsOf ?s' = takeWhile (\<lambda>c. \<not> isSpace c) ?s' # wordsOf (dropWhile (\<lambda>c. \<not> isSpace c) ?s')"
        using Cons na by (simp add: wordsOf_nonspace)
      ultimately show ?thesis using True ih by simp
    qed
  qed
qed

lemma trim_collapse: "trim (collapseSpaces s) = specCollapsed s"
proof (induction s rule: collapseSpaces.induct)
  case 1
  show ?case by (simp add: trim_def specCollapsed_def wordsOf_Nil)
next
  case (2 c s)
  show ?case
  proof (cases "isSpace c")
    case True
    then show ?thesis using 2(1)
      by (simp add: trim_space isSpace_32 specCollapsed_def wordsOf_space wordsOf_dropWhile)
  next
    case False
    then show ?thesis
      by (simp add: trim_nonspace rtrim_collapse specCollapsed_def wordsOf_nonspace)
  qed
qed

lemma endsWith_append: "endsWith (a @ b) b"
proof -
  have "startsWith (x @ y) x" for x y :: jstring
    by (induction x) auto
  then show ?thesis by (simp add: endsWith_def)
qed

text \<open>
  C9. When the collapsed, trimmed form of the text is longer than \<open>maxLength\<close>, the
  summary has exactly \<open>maxLength + 3\<close> code units, ends with the three dots and
  starts with the first \<open>maxLength\<close> units of that form; otherwise the summary is
  that form. The form is the specification's: the words joined by single spaces.
\<close>

theorem generateSummary_bound:
  "(length (specCollapsed input) > maxLength \<longrightarrow>
       length (generateSummary input maxLength) = maxLength + 3
       \<and> endsWith (generateSummary input maxLength) (js ''...'')
       \<and> take maxLength (generateSummary input maxLength) = take maxLength (specCollapsed input))
   \<and> (length (specCollapsed input) \<le> maxLength \<longrightarrow>
       generateSummary input maxLength = specCollapsed input)"
proof (cases "input = []")
  case True
  then show ?thesis by (simp add: generateSummary_def specCollapsed_def wordsOf_Nil)
next
  case False
  then show ?thesis
    by (auto simp: generateSummary_def Let_def trim_collapse endsWith_append js_def)
qed

theorem generateSummary_bound_witness:
  "length (specCollapsed (js '' Hello   world '')) > 5
   \<and> length (generateSummary (js '' Hello   world '') 5) = 5 + 3
   \<and> length (specCollapsed (js ''Short text'')) \<le> 100
   \<and> generateSummary (js ''Short text'') 100 = specCollapsed (js ''Short text'')"
proof -
  have h1: "length (specCollapsed (js '' Hello   world '')) > 5"
    by (simp add: specCollapsed_def wordsOf.simps js_def isSpace_def Let_def)
  have h2: "length (specCollapsed (js ''Short text'')) \<le> 100"
    by (simp add: specCollapsed_def wordsOf.simps js_def isSpace_def Let_def)
  show ?thesis
    using h1 h2 generateSummary_bound [where maxLength = "5" and input = "js '' Hello   world ''"]
      generateSummary_bound [where maxLength = "100" and input = "js ''Short text''"] by simp
qed

section \<open>The constructor\<close>

text \<open>
  C10. Constructing the parser reads the origin of \<open>siteInfo.url\<close>. When that address
  does not parse, the constructor raises and so does the extraction, for every page and
  before any strategy runs; when it parses, the extraction returns the list of the
  dispatched strategy.
\<close>

theorem constructor_requires_url:
  "(urlOrigin rt (url si) = None \<longrightarrow>
      newContentParser rt si = Inl InvalidURL \<and> extractRecords rt si d = Inl InvalidURL)
   \<and> (urlOrigin rt (url si) = Some origin \<longrightarrow>
      extractRecords rt si d = Inr (parseContent rt \<lparr> siteInfo = si, baseUrl = origin \<rparr> d))"
  by (simp add: newContentParser_def extractRecords_def)

lemma simpleOrigin_not_a_url: "simpleOrigin (js ''not-a-url'') = None"
  by (simp add: simpleOrigin_def js_def)

lemma simpleOrigin_example: "simpleOrigin (js ''https://example.com'') = Some (js ''https://example.com'')"
  by (simp add: simpleOrigin_def js_def)

theorem constructor_requires_url_witness:
  "urlOrigin offlineRuntime (url (initialInfo (js ''not-a-url''))) = None
   \<and> extractRecords offlineRuntime (initialInfo (js ''not-a-url'')) wordpressTestPage = Inl InvalidURL
   \<and> urlOrigin offlineRuntime (url (initialInfo (js ''https://example.com''))) = Some (js ''https://example.com'')
   \<and> extractRecords offlineRuntime (initialInfo (js ''https://example.com'')) wordpressTestPage
       = Inr (parseContent offlineRuntime
                \<lparr> siteInfo = initialInfo (js ''https://example.com''), baseUrl = js ''https://example.com'' \<rparr>
                wordpressTestPage)"
proof -
  have h1: "urlOrigin offlineRuntime (url (initialInfo (js ''not-a-url''))) = None"
    by (simp add: offlineRuntime_def initialInfo_def simpleOrigin_not_a_url)
  have h2: "urlOrigin offlineRuntime (url (initialInfo (js ''https://example.com''))) = Some (js ''https://example.com'')"
    by (simp add: offlineRuntime_def initialInfo_def simpleOrigin_example)
  show ?thesis
    using h1 h2
      constructor_requires_url [where rt = offlineRuntime and si = "initialInfo (js ''not-a-url'')"
        and d = wordpressTestPage]
      constructor_requires_url [where rt = offlineRuntime and si = "initialInfo (js ''https://example.com'')"
        and origin = "js ''https://example.com''" and d = wordpressTestPage]
    by blast
qed

section \<open>The number of records\<close>

lemma sel_news_articles:
  "sel ''article, .article, .news-item, .story, .post'' =
     [[[Tag (js ''article'')]], [[Class (js ''article'')]], [[Class (js ''news-item'')]],
      [[Class (js ''story'')]], [[Class (js ''post'')]]]"
  by (simp add: sel_def selStop_def)

lemma sel_news_title:
  "sel ''h1, h2, .headline, .title, .article-title'' =
     [[[Tag (js ''h1'')]], [[Tag (js ''h2'')]], [[Class (js ''headline'')]],
      [[Class (js ''title'')]], [[Class (js ''article-title'')]]]"
  by (simp add: sel_def selStop_def)

lemma startsWith_iff: "startsWith s t \<longleftrightarrow> (\<exists>q. s = t @ q)"
  by (induction s t rule: startsWith.induct) auto

lemma includesStr_iff: "includesStr s t \<longleftrightarrow> (\<exists>p q. s = p @ t @ q)"
proof (induction s)
  case Nil
  show ?case by auto
next
  case (Cons a s)
  show ?case
  proof
    assume "includesStr (a # s) t"
    then consider "startsWith (a # s) t" | "includesStr s t" by auto
    then show "\<exists>p q. a # s = p @ t @ q"
    proof cases
      case 1
      then obtain q where "a # s = t @ q" by (auto simp: startsWith_iff)
      then have "a # s = [] @ t @ q" by simp
      then show ?thesis by blast
    next
      case 2
      then obtain p q where "s = p @ t @ q" using Cons.IH by blast
      then have "a # s = (a # p) @ t @ q" by simp
      then show ?thesis by blast
    qed
  next
    assume "\<exists>p q. a # s = p @ t @ q"
    then obtain p q where pq: "a # s = p @ t @ q" by blast
    show "includesStr (a # s) t"
    proof (cases p)
      case Nil
      then have "startsWith (a # s) t" using pq by (auto simp: startsWith_iff)
      then show ?thesis by simp
    next
      case (Cons b p')
      then have "s = p' @ t @ q" using pq by simp
      then have "includesStr s t" using Cons.IH by blast
      then show ?thesis by simp
    qed
  qed
qed

lemma includes_append: "includesStr b t \<Longrightarrow> includesStr (a @ b) t"
  by (metis append.assoc includesStr_iff)

lemma includes_append1: "includesStr a t \<Longrightarrow> includesStr (a @ b) t"
  by (metis append.assoc includesStr_iff)

lemma newsInfo_fields:
  "type (newsInfo n) = js ''news''"
  "url (newsInfo n) = js ''https://news-site.com''"
  "selectors (newsInfo n) Articles = Some (sel ''article, .article, .news-item, .story, .post'')"
  "selectors (newsInfo n) Title = Some (sel ''h1, h2, .headline, .title, .article-title'')"
  "selectors (newsInfo n) Link = None"
proof -
  have ld: "includesStr (markup (newsPage n)) (js ''\"@type\":\"NewsArticle\"'')"
    unfolding newsPage_def
    apply simp
    apply (rule includes_append1)
    apply (simp add: js_def)
    done
  show "type (newsInfo n) = js ''news''"
    "url (newsInfo n) = js ''https://news-site.com''"
    "selectors (newsInfo n) Articles = Some (sel ''article, .article, .news-item, .story, .post'')"
    "selectors (newsInfo n) Title = Some (sel ''h1, h2, .headline, .title, .article-title'')"
    "selectors (newsInfo n) Link = None"
    using ld by (simp_all add: newsInfo_def assign_def initialInfo_def detectNews_def Let_def)
qed

lemma concat_replicate_single: "concat (replicate n [x]) = replicate n x"
  by (induction n) auto

lemma elementsOf_Element:
  "n = Element t a cs \<Longrightarrow> elementsOf anc n = (anc, n) # concat (map (elementsOf (n # anc)) cs)"
  by simp

lemma query_newsPage:
  "query (newsPage n) (sel ''article, .article, .news-item, .story, .post'')
     = replicate n ([newsBody n, newsHtml n], newsArticleNode)"
proof -
  have b: "elementsOf [newsHtml n] (newsBody n)
             = ([newsHtml n], newsBody n)
               # elementsOf [newsBody n, newsHtml n]
                   (Element (js ''script'') [(js ''type'', js ''application/ld+json'')]
                      [TextNode (js ''{\"@type\":\"NewsArticle\"}'')])
               @ concat (replicate n (elementsOf [newsBody n, newsHtml n] newsArticleNode))"
    using elementsOf_Element [OF newsBody_def, of "[newsHtml n]" n] by simp
  have h: "elementsOf [] (newsHtml n)
             = ([], newsHtml n)
               # elementsOf [newsHtml n] (Element (js ''head'') []
                    [Element (js ''meta'') [(js ''property'', js ''og:type''), (js ''content'', js ''article'')] []])
               @ elementsOf [newsHtml n] (newsBody n)"
    using elementsOf_Element [OF newsHtml_def, of "[]" n] by simp
  have m1: "\<not> matches (sel ''article, .article, .news-item, .story, .post'') a (newsHtml n)" for a
    by (simp add: sel_news_articles newsHtml_def matches_def matchesChain_def matchesCompound_def
        classNames_def js_def)
  have m2: "\<not> matches (sel ''article, .article, .news-item, .story, .post'') a (newsBody n)" for a
    by (simp add: sel_news_articles newsBody_def matches_def matchesChain_def matchesCompound_def
        classNames_def js_def)
  have m3: "filter (\<lambda>(anc, n). matches (sel ''article, .article, .news-item, .story, .post'') anc n)
              (elementsOf a newsArticleNode) = [(a, newsArticleNode)]" for a
    by (simp add: sel_news_articles newsArticleNode_def matches_def matchesChain_def matchesCompound_def
        classNames_def js_def)
  show ?thesis
    apply (simp add: query_def newsPage_def h b m1 m2 filter_concat comp_def m3 concat_replicate_single)
    apply (simp add: sel_news_articles matches_def matchesChain_def matchesCompound_def
        classNames_def js_def)
    done
qed

lemma newsEach_length:
  "length (newsEach rt p els k) = length (filter (\<lambda>el. extractText el (selectors (siteInfo p) Title) \<noteq> []) els)"
  by (induction els arbitrary: k) (simp_all add: Let_def)

lemma extractText_newsArticle:
  "extractText (anc, newsArticleNode) (Some (sel ''h1, h2, .headline, .title, .article-title'')) = js ''Headline''"
  by (simp add: extractText_def find1_def sel_news_title newsArticleNode_def matches_def matchesChain_def
      matchesCompound_def classNames_def textOf_def js_def)

lemma parseContent_newsPage: "length (parseContent rt (newsParser n) (newsPage n)) = n"
proof -
  have "js ''news'' \<noteq> js ''portfolio''" "js ''news'' \<noteq> js ''blog''" by (simp_all add: js_def)
  then have "parseContent rt (newsParser n) (newsPage n) = parseNewsContent rt (newsParser n) (newsPage n) 0"
    by (simp add: parseContent_def newsParser_def newsInfo_fields Let_def)
  also have "length \<dots> = n"
    by (simp add: parseNewsContent_def articleElements_def newsParser_def newsInfo_fields newsEach_length
        query_newsPage extractText_newsArticle js_def)
  finally show ?thesis .
qed

text \<open>
  C4. The claim caps every strategy at 20 records. The portfolio and Movable Type
  strategies end in \<open>slice(0, 20)\<close>; the news strategy (like the blog, e-commerce,
  repository and generic ones) returns its whole list. On the news page with 21
  articles, classified by the news detector's own candidate, the extraction returns 21
  records.
\<close>

theorem news_strategy_uncapped: "length (parseContent offlineRuntime (newsParser 21) (newsPage 21)) = 21"
  by (rule parseContent_newsPage)

section \<open>The fallback to the generic strategy\<close>

















section \<open>Failures of the secondary fetches\<close>

lemma fetch_fails_null: "fetchFails rt u \<Longrightarrow> fetchRuanyifengArticleContent rt u = None"
  by (auto simp: fetchFails_def fetchRuanyifengArticleContent_def split: response.splits)

lemma enrich_fails: "fetchFails rt (link a) \<Longrightarrow> enrich rt a = a"
  by (simp add: enrich_def fetch_fails_null)

lemma length_enrichFirst: "length (enrichFirst rt n arts) = length arts"
  by (induction arts arbitrary: n) auto

lemma enrichFirst_nth:
  "i < length arts \<Longrightarrow>
   enrichFirst rt n arts ! i =
     (if needsFetch (arts ! i) \<and> length (filter needsFetch (take i arts)) < n
      then enrich rt (arts ! i) else arts ! i)"
proof (induction arts arbitrary: n i)
  case Nil
  then show ?case by simp
next
  case (Cons a rest)
  show ?case
  proof (cases i)
    case 0
    then show ?thesis by (simp add: needsFetch_def)
  next
    case (Suc j)
    then have j: "j < length rest" using Cons.prems by simp
    show ?thesis
    proof (cases "needsFullContent a = Some True \<and> n > 0")
      case True
      then have "enrichFirst rt n (a # rest) ! i = enrichFirst rt (n - 1) rest ! j"
        using Suc by simp
      also have "\<dots> = (if needsFetch (rest ! j) \<and> length (filter needsFetch (take j rest)) < n - 1
                        then enrich rt (rest ! j) else rest ! j)"
        by (rule Cons.IH [OF j])
      finally show ?thesis
      proof -
        assume e: "enrichFirst rt n (a # rest) ! i =
          (if needsFetch (rest ! j) \<and> length (filter needsFetch (take j rest)) < n - 1
           then enrich rt (rest ! j) else rest ! j)"
        have na: "needsFetch a" using True by (simp add: needsFetch_def)
        have "length (filter needsFetch (take i (a # rest))) = Suc (length (filter needsFetch (take j rest)))"
          using Suc na by simp
        moreover have "(Suc m < n) = (m < n - 1)" for m using True by auto
        ultimately show ?thesis using e Suc by simp
      qed
    next
      case False
      then have "enrichFirst rt n (a # rest) ! i = enrichFirst rt n rest ! j"
        using Suc by auto
      also have "\<dots> = (if needsFetch (rest ! j) \<and> length (filter needsFetch (take j rest)) < n
                        then enrich rt (rest ! j) else rest ! j)"
        by (rule Cons.IH [OF j])
      finally show ?thesis
      proof -
        assume e: "enrichFirst rt n (a # rest) ! i =
          (if needsFetch (rest ! j) \<and> length (filter needsFetch (take j rest)) < n
           then enrich rt (rest ! j) else rest ! j)"
        show ?thesis
        proof (cases "needsFetch a")
          case True
          then have "n = 0" using False by (simp add: needsFetch_def)
          then show ?thesis using e Suc by simp
        next
          case nf: False
          then have "length (filter needsFetch (take i (a # rest))) = length (filter needsFetch (take j rest))"
            using Suc by simp
          then show ?thesis using e Suc by simp
        qed
      qed
    qed
  qed
qed

lemma parseMovableTypeBlog_collected:
  "parseMovableTypeBlog rt p d k =
     take 20 (map (\<lambda>a. a\<lparr> needsFullContent := None \<rparr>) (enrichFirst rt 5 (movableTypeCollected rt p d k)))"
  by (simp add: parseMovableTypeBlog_def movableTypeCollected_def Let_def)

lemma figma_fetch_failure:
  "preloadMatch (markup d) = Some path \<Longrightarrow> jsonFails rt (baseUrl p @ path) \<Longrightarrow>
   parseFigmaBasedSite rt p d k = parseGenericContent rt p d k"
  by (auto simp: parseFigmaBasedSite_def jsonFails_def split: response.splits option.splits)

text \<open>
  C7. In the Movable Type strategy no record is lost to a failed secondary fetch: the
  result has as many records as were collected (up to the cap), a record whose fetch
  fails is the collected record unchanged, and a marked record among the first five is
  the enriched one whatever happened to the fetches of the others. In the embedded-data
  strategy a failed fetch or a malformed payload gives the result of the generic
  strategy. An extraction whose parser could be constructed returns a list.
\<close>

theorem enrichment_failure_contained:
  "length (parseMovableTypeBlog rt p d k) = min 20 (length (movableTypeCollected rt p d k))
   \<and> (\<forall>i < length (parseMovableTypeBlog rt p d k).
         fetchFails rt (link (movableTypeCollected rt p d k ! i)) \<longrightarrow>
         parseMovableTypeBlog rt p d k ! i = (movableTypeCollected rt p d k ! i)\<lparr> needsFullContent := None \<rparr>)
   \<and> (\<forall>i < length (parseMovableTypeBlog rt p d k).
         needsFetch (movableTypeCollected rt p d k ! i)
         \<and> length (filter needsFetch (take i (movableTypeCollected rt p d k))) < 5 \<longrightarrow>
         parseMovableTypeBlog rt p d k ! i
           = (enrich rt (movableTypeCollected rt p d k ! i))\<lparr> needsFullContent := None \<rparr>)
   \<and> (preloadMatch (markup d) = Some path \<and> jsonFails rt (baseUrl p @ path) \<longrightarrow>
         parseFigmaBasedSite rt p d k = parseGenericContent rt p d k)
   \<and> (newContentParser rt si = Inr p \<longrightarrow> extractRecords rt si d = Inr (parseContent rt p d))"
proof -
  let ?c = "movableTypeCollected rt p d k"
  let ?r = "parseMovableTypeBlog rt p d k"
  have len: "length ?r = min 20 (length ?c)"
    by (simp add: parseMovableTypeBlog_collected length_enrichFirst)
  have nth: "?r ! i = (enrichFirst rt 5 ?c ! i)\<lparr> needsFullContent := None \<rparr>" if "i < length ?r" for i
    using that len by (simp add: parseMovableTypeBlog_collected length_enrichFirst)
  have a: "?r ! i = (?c ! i)\<lparr> needsFullContent := None \<rparr>"
    if "i < length ?r" "fetchFails rt (link (?c ! i))" for i
  proof -
    have "i < length ?c" using that(1) len by simp
    then show ?thesis using nth [OF that(1)] enrich_fails [OF that(2)] by (simp add: enrichFirst_nth)
  qed
  have b: "?r ! i = (enrich rt (?c ! i))\<lparr> needsFullContent := None \<rparr>"
    if "i < length ?r" "needsFetch (?c ! i)" "length (filter needsFetch (take i ?c)) < 5" for i
  proof -
    have "i < length ?c" using that(1) len by simp
    then show ?thesis using nth [OF that(1)] that(2,3) by (simp add: enrichFirst_nth)
  qed
  have c: "extractRecords rt si d = Inr (parseContent rt p d)" if "newContentParser rt si = Inr p"
    using that by (simp add: extractRecords_def)
  from len a b c figma_fetch_failure [of d path rt p k] show ?thesis by blast
qed

lemma fetchFails_offline: "fetchFails offlineRuntime u"
  by (simp add: fetchFails_def offlineRuntime_def)

lemma jsonFails_offline: "jsonFails offlineRuntime u"
  by (simp add: jsonFails_def offlineRuntime_def)

lemma preloadMatch_figmaPage: "preloadMatch (markup figmaPage) = Some (js ''/_json/abc/site.json'')"
  by (simp add: figmaPage_def js_def hrefValue_def endsWith_def)

lemma movableTypeCollected_page:
  "movableTypeCollected offlineRuntime movableTypeParser movableTypePage 0 =
     [\<lparr> title = js ''Weekly issue 319'',
        link = js ''https://blog.example.com/blog/2024/09/weekly-issue-319.html'',
        description = listItemPrefix @ js ''Weekly issue 319'',
        content = js ''<h2>Weekly issue 319</h2><p>'' @ listItemSentence @ js ''</p>'',
        pubDate = toUTCString (Some 0),
        guid = generateGuid movableTypeParser (js ''https://blog.example.com/blog/2024/09/weekly-issue-319.html''),
        image = None, author = Some authorName, category = Some (js ''Blog''),
        needsFullContent = Some True \<rparr>]"
  by (simp add: movableTypeCollected_def movableTypePage_def query_def sel_def selStop_def
      matches_def matchesChain_def matchesCompound_def classNames_def js_def isSpace_def
      mtListItem_def find1_def textOf_def trim_def attrOrEmpty_def attr_def resolveUrl_def
      movableTypeParser_def movableTypeInfo_def offlineRuntime_def moreArticles_def Let_def)

theorem enrichment_failure_contained_witness:
  "length (parseMovableTypeBlog offlineRuntime movableTypeParser movableTypePage 0) = 1
   \<and> fetchFails offlineRuntime (link (movableTypeCollected offlineRuntime movableTypeParser movableTypePage 0 ! 0))
   \<and> needsFetch (movableTypeCollected offlineRuntime movableTypeParser movableTypePage 0 ! 0)
   \<and> parseMovableTypeBlog offlineRuntime movableTypeParser movableTypePage 0 ! 0
       = (movableTypeCollected offlineRuntime movableTypeParser movableTypePage 0 ! 0)\<lparr> needsFullContent := None \<rparr>
   \<and> preloadMatch (markup figmaPage) = Some (js ''/_json/abc/site.json'')
   \<and> jsonFails offlineRuntime (baseUrl portfolioParser @ js ''/_json/abc/site.json'')
   \<and> parseFigmaBasedSite offlineRuntime portfolioParser figmaPage 0
       = parseGenericContent offlineRuntime portfolioParser figmaPage 0
   \<and> newContentParser offlineRuntime movableTypeInfo = Inr movableTypeParser
   \<and> extractRecords offlineRuntime movableTypeInfo movableTypePage
       = Inr (parseContent offlineRuntime movableTypeParser movableTypePage)"
proof -
  let ?c = "movableTypeCollected offlineRuntime movableTypeParser movableTypePage 0"
  let ?r = "parseMovableTypeBlog offlineRuntime movableTypeParser movableTypePage 0"
  note mt = enrichment_failure_contained [where rt = offlineRuntime and p = movableTypeParser
      and d = movableTypePage and k = 0 and si = movableTypeInfo]
  note fg = enrichment_failure_contained [where rt = offlineRuntime and p = portfolioParser
      and d = figmaPage and k = 0 and path = "js ''/_json/abc/site.json''"]
  have len: "length ?r = 1" using mt by (simp add: movableTypeCollected_page)
  have nf: "needsFetch (?c ! 0)" by (simp add: movableTypeCollected_page needsFetch_def)
  have r0: "?r ! 0 = (?c ! 0)\<lparr> needsFullContent := None \<rparr>"
    using mt len fetchFails_offline by simp
  have fig: "parseFigmaBasedSite offlineRuntime portfolioParser figmaPage 0
       = parseGenericContent offlineRuntime portfolioParser figmaPage 0"
    using fg preloadMatch_figmaPage jsonFails_offline by blast
  have np: "newContentParser offlineRuntime movableTypeInfo = Inr movableTypeParser"
    by (simp add: newContentParser_def offlineRuntime_def movableTypeInfo_def movableTypeParser_def
        simpleOrigin_def js_def)
  have ex: "extractRecords offlineRuntime movableTypeInfo movableTypePage
       = Inr (parseContent offlineRuntime movableTypeParser movableTypePage)"
    using mt np by blast
  from len nf r0 fig np ex fetchFails_offline jsonFails_offline preloadMatch_figmaPage
  show ?thesis by blast
qed

section \<open>Identifiers\<close>























section \<open>Repeated runs\<close>













lemma sameButTime_push:
  "sameButTime (a1, s1, k1) (a2, s2, k2) \<Longrightarrow> timeless x = timeless y \<Longrightarrow>
   sameButTime (a1 @ [x], s1 @ [key], k1') (a2 @ [y], s2 @ [key], k2')"
  by (simp add: sameButTime_def)

lemma sameButTime_seen: "sameButTime (a1, s1, k1) (a2, s2, k2) \<Longrightarrow> s1 = s2"
  by (simp add: sameButTime_def)

lemma sameButTime_ticks: "sameButTime (a1, s1, k1) (a2, s2, k2) \<Longrightarrow> sameButTime (a1, s1, k1') (a2, s2, k2')"
  by (simp add: sameButTime_def)


































end
